theory Spec2Isabelle
  imports Main "HOL-Library.Sublist" "HOL-Library.AList"
begin

section \<open>Values and exceptions of the host language\<close>

text \<open>
  A promise that rejects, or a statement that throws, is a value \<open>Inl t\<close> of a sum;
  \<open>Inr v\<close> is the fulfilled value. A thrown value is an \<^verbatim>\<open>Error\<close> with its message,
  some other value with the text \<^verbatim>\<open>String\<close> gives for it, or a value for which the
  conversion itself throws (an object without a prototype, an error whose message
  getter throws): \<open>Unprintable t\<close>, with the value \<open>t\<close> that the conversion throws.
\<close>

datatype thrown = Error string | Thrown string | Unprintable thrown

text \<open>
  \<^verbatim>\<open>error instanceof Error ? error.message : String(error)\<close>, as the loader's
  \<^verbatim>\<open>catch\<close> blocks evaluate it: the text, or the value thrown while getting it.
\<close>

fun error_message :: "thrown \<Rightarrow> thrown + string" where
  "error_message (Error m) = Inr m"
| "error_message (Thrown s) = Inr s"
| "error_message (Unprintable t) = Inl t"

section \<open>The permission store (stores/custom-tool-permission-store.ts)\<close>

datatype CustomToolPermission = Fs | Net | Command

record CustomToolPermissionGrant =
  toolName :: string
  permissions :: "CustomToolPermission list"
  grantedAt :: int

record CustomToolPermissionState =
  grants :: "string \<rightharpoonup> CustomToolPermissionGrant"

text \<open>The first argument is the reading of the clock, \<^verbatim>\<open>Date.now()\<close>.\<close>

definition grantPermission ::
  "int \<Rightarrow> string \<Rightarrow> CustomToolPermission list \<Rightarrow> CustomToolPermissionState
     \<Rightarrow> CustomToolPermissionState" where
  "grantPermission now tn perms state =
     (let next = grants state;
          next = next(tn \<mapsto> \<lparr>toolName = tn, permissions = perms, grantedAt = now\<rparr>)
      in \<lparr>grants = next\<rparr>)"

definition revokePermission ::
  "string \<Rightarrow> CustomToolPermissionState \<Rightarrow> CustomToolPermissionState" where
  "revokePermission tn state =
     (let next = grants state; next = next(tn := None) in \<lparr>grants = next\<rparr>)"

definition getGrant ::
  "CustomToolPermissionState \<Rightarrow> string \<Rightarrow> CustomToolPermissionGrant option" where
  "getGrant state tn = grants state tn"

section \<open>Permission checks (services/tools/custom-tool-permission.ts)\<close>

record PermissionCheckResult =
  allowed :: bool
  missing :: "CustomToolPermission list"

definition checkCustomToolPermissions ::
  "CustomToolPermissionState \<Rightarrow> string \<Rightarrow> CustomToolPermission list
     \<Rightarrow> PermissionCheckResult" where
  "checkCustomToolPermissions store tn requested =
     (if length requested = 0 then \<lparr>allowed = True, missing = []\<rparr>
      else case getGrant store tn of
        None \<Rightarrow> \<lparr>allowed = False, missing = requested\<rparr>
      | Some grant \<Rightarrow>
          (let missing = filter (\<lambda>permission. permission \<notin> set (permissions grant)) requested
           in if length missing > 0 then \<lparr>allowed = False, missing = missing\<rparr>
              else \<lparr>allowed = True, missing = []\<rparr>))"

definition ensureCustomToolPermissions ::
  "int \<Rightarrow> string \<Rightarrow> CustomToolPermission list \<Rightarrow> CustomToolPermissionState
     \<Rightarrow> CustomToolPermissionState" where
  "ensureCustomToolPermissions now tn perms store = grantPermission now tn perms store"

definition revokeCustomToolPermissions ::
  "string \<Rightarrow> CustomToolPermissionState \<Rightarrow> CustomToolPermissionState" where
  "revokeCustomToolPermissions tn store = revokePermission tn store"

section \<open>The tool adapter (services/tools/custom-tool-registry.tsx)\<close>

text \<open>
  Of a definition the execute wrapper reads the name, the optional permission list and
  the execute function. The permission store is process-wide, so the definition's own
  execute function runs in the store the wrapper leaves and may change it; its promise
  may reject.
\<close>

record ('p, 'c, 'r) CustomToolDefinition =
  def_name :: string
  def_permissions :: "CustomToolPermission list option"
  def_execute :: "'p \<Rightarrow> 'c \<Rightarrow> CustomToolPermissionState
                    \<Rightarrow> (thrown + 'r) \<times> CustomToolPermissionState"

text \<open>The \<^verbatim>\<open>execute\<close> field of the tool that \<^verbatim>\<open>adaptCustomTool\<close> returns.\<close>

definition adapted_execute ::
  "int \<Rightarrow> ('p, 'c, 'r) CustomToolDefinition \<Rightarrow> 'p \<Rightarrow> 'c \<Rightarrow> CustomToolPermissionState
     \<Rightarrow> (thrown + 'r) \<times> CustomToolPermissionState" where
  "adapted_execute now definition params context store =
     (let requested = (case def_permissions definition of None \<Rightarrow> [] | Some ps \<Rightarrow> ps);
          store' = (if length requested > 0
                    then ensureCustomToolPermissions now (def_name definition) requested store
                    else store)
      in def_execute definition params context store')"

section \<open>Module values\<close>

text \<open>
  What a module, an export or a definition can be at run time. An object is its list of
  own properties; \<open>Frozen\<close> is an object that takes no assignment to a property (a
  frozen object, a module namespace); a function is known by a label only. Numbers are
  integers here, which is all the code below inspects of them (zero is falsy).
\<close>

datatype jsval =
    Undefined | Null | Bool bool | Num int | Str string
  | Obj "(string \<times> jsval) list" | Frozen "(string \<times> jsval) list" | Fn string

fun truthy :: "jsval \<Rightarrow> bool" where
  "truthy Undefined = False"
| "truthy Null = False"
| "truthy (Bool b) = b"
| "truthy (Num n) = (n \<noteq> 0)"
| "truthy (Str s) = (s \<noteq> [])"
| "truthy (Obj ps) = True"
| "truthy (Frozen ps) = True"
| "truthy (Fn f) = True"

fun typeof :: "jsval \<Rightarrow> string" where
  "typeof Undefined = ''undefined''"
| "typeof Null = ''object''"
| "typeof (Bool b) = ''boolean''"
| "typeof (Num n) = ''number''"
| "typeof (Str s) = ''string''"
| "typeof (Obj ps) = ''object''"
| "typeof (Frozen ps) = ''object''"
| "typeof (Fn f) = ''function''"

text \<open>Reading a property \<^verbatim>\<open>v.k\<close> of a value that is not null or undefined.\<close>

fun get_prop :: "jsval \<Rightarrow> string \<Rightarrow> jsval" where
  "get_prop (Obj ps) k = (case map_of ps k of Some v \<Rightarrow> v | None \<Rightarrow> Undefined)"
| "get_prop (Frozen ps) k = (case map_of ps k of Some v \<Rightarrow> v | None \<Rightarrow> Undefined)"
| "get_prop v k = Undefined"

text \<open>The operator \<^verbatim>\<open>a ?? b\<close>.\<close>

fun nullish_or :: "jsval \<Rightarrow> jsval \<Rightarrow> jsval" where
  "nullish_or Undefined b = b"
| "nullish_or Null b = b"
| "nullish_or a b = a"

text \<open>
  The module registry is an object literal \<^verbatim>\<open>{}\<close>, so besides its own properties
  it has the ones every object inherits from \<^verbatim>\<open>Object.prototype\<close>; the operator
  \<^verbatim>\<open>in\<close> and a property read see both. Read through the registry,
  \<^verbatim>\<open>__proto__\<close> is \<^verbatim>\<open>Object.prototype\<close> itself, whose own \<^verbatim>\<open>__proto__\<close> reads
  \<^verbatim>\<open>null\<close>.
\<close>

definition objectPrototypeMethods :: "(string \<times> jsval) list" where
  "objectPrototypeMethods =
     [(''constructor'', Fn ''Object''),
      (''__defineGetter__'', Fn ''__defineGetter__''),
      (''__defineSetter__'', Fn ''__defineSetter__''),
      (''hasOwnProperty'', Fn ''hasOwnProperty''),
      (''__lookupGetter__'', Fn ''__lookupGetter__''),
      (''__lookupSetter__'', Fn ''__lookupSetter__''),
      (''isPrototypeOf'', Fn ''isPrototypeOf''),
      (''propertyIsEnumerable'', Fn ''propertyIsEnumerable''),
      (''toString'', Fn ''toString''),
      (''valueOf'', Fn ''valueOf''),
      (''toLocaleString'', Fn ''toLocaleString'')]"

definition objectPrototype :: "(string \<times> jsval) list" where
  "objectPrototype =
     objectPrototypeMethods
     @ [(''__proto__'', Obj (objectPrototypeMethods @ [(''__proto__'', Null)]))]"

definition registry_has :: "(string \<rightharpoonup> jsval) \<Rightarrow> string \<Rightarrow> bool" where
  "registry_has registry alias =
     (registry alias \<noteq> None \<or> map_of objectPrototype alias \<noteq> None)"

definition registry_get :: "(string \<rightharpoonup> jsval) \<Rightarrow> string \<Rightarrow> jsval" where
  "registry_get registry alias =
     (case registry alias of
        Some v \<Rightarrow> v
      | None \<Rightarrow> (case map_of objectPrototype alias of Some v \<Rightarrow> v | None \<Rightarrow> Undefined))"

section \<open>The environment of the loader\<close>

text \<open>
  The path and file-system calls, the transpiler and the dynamic import are not code of
  this repository: they are parameters. Each is a promise that settles, fulfilled
  (\<open>Inr\<close>) or rejected (\<open>Inl\<close>). Path and file-system calls are functions of their
  arguments during one load pass. Importing a wrapped module runs its code, which may
  resolve further modules, so it reads and changes the resolver's state; it yields the
  exports of the module, the properties of its namespace object.
\<close>

record DirEntry =
  entry_name :: string
  isFile :: bool
  isDirectory :: bool

record CompileResult =
  code :: string
  sourceMap :: "string option"

record wrapped_module =
  m_code :: string
  m_baseDir :: "string option"
  m_filename :: string

record resolver_state =
  moduleCache :: "string \<rightharpoonup> jsval"
  moduleRegistry :: "string \<rightharpoonup> jsval"

record env =
  path_normalize :: "string \<Rightarrow> thrown + string"
  path_join :: "string \<Rightarrow> string \<Rightarrow> thrown + string"
  path_dirname :: "string \<Rightarrow> thrown + string"
  path_basename :: "string \<Rightarrow> thrown + string"
  path_homeDir :: "thrown + string"
  fs_exists :: "string \<Rightarrow> thrown + bool"
  fs_readDir :: "string \<Rightarrow> thrown + DirEntry list"
  fs_readTextFile :: "string \<Rightarrow> thrown + string"
  swc_transform :: "string \<Rightarrow> string \<Rightarrow> bool \<Rightarrow> thrown + CompileResult"
  import_module :: "wrapped_module \<Rightarrow> resolver_state
                      \<Rightarrow> (thrown + (string \<times> jsval) list) \<times> resolver_state"
  import_builtin :: "string \<Rightarrow> thrown + jsval"
  internalModuleLoaders :: "string \<rightharpoonup> (thrown + jsval)"
  import_tauri_fetch :: "thrown + jsval"

section \<open>The compiler (services/tools/custom-tool-compiler.ts)\<close>

definition compileCustomTool :: "env \<Rightarrow> string \<Rightarrow> string \<Rightarrow> thrown + CompileResult" where
  "compileCustomTool env source filename =
     swc_transform env source filename (suffix ''.tsx'' filename)"

definition is_word_char :: "char \<Rightarrow> bool" where
  "is_word_char c =
     (let n = (of_char c :: nat)
      in (48 \<le> n \<and> n \<le> 57) \<or> (65 \<le> n \<and> n \<le> 90) \<or> (97 \<le> n \<and> n \<le> 122) \<or> n = 95)"

text \<open>
  \<^verbatim>\<open>source.replace(/\brequire\(/g, 'await __require(')\<close>: the first argument counts
  the characters of a match still to skip, the second says whether the character
  before the position is a word character.
\<close>

fun convert_from :: "nat \<Rightarrow> bool \<Rightarrow> string \<Rightarrow> string" where
  "convert_from k w [] = []"
| "convert_from (Suc k) w (c # cs) = convert_from k (is_word_char c) cs"
| "convert_from 0 w (c # cs) =
     (if \<not> w \<and> prefix ''require('' (c # cs)
      then ''await __require('' @ convert_from 7 False cs
      else c # convert_from 0 (is_word_char c) cs)"

definition convertCommonJsToAsyncRequire :: "string \<Rightarrow> string" where
  "convertCommonJsToAsyncRequire source = convert_from 0 False source"

text \<open>The module URL stands for the wrapped module text it addresses.\<close>

definition createCustomToolModuleUrl ::
  "CompileResult \<Rightarrow> string \<Rightarrow> string option \<Rightarrow> wrapped_module" where
  "createCustomToolModuleUrl compiled filename baseDir =
     \<lparr>m_code = convertCommonJsToAsyncRequire (code compiled),
      m_baseDir = baseDir, m_filename = filename\<rparr>"

text \<open>
  \<^verbatim>\<open>module.default ?? module\<close>, where \<^verbatim>\<open>module\<close> is the namespace object of the
  imported module.
\<close>

definition resolveCustomToolDefinition ::
  "env \<Rightarrow> wrapped_module \<Rightarrow> resolver_state \<Rightarrow> (thrown + jsval) \<times> resolver_state" where
  "resolveCustomToolDefinition env moduleUrl st =
     (case import_module env moduleUrl st of
        (Inl e, st') \<Rightarrow> (Inl e, st')
      | (Inr exports, st') \<Rightarrow>
          (let module = Frozen exports
           in (Inr (nullish_or (get_prop module ''default'') module), st')))"

subsection \<open>The wrapper around a compiled module\<close>

text \<open>
  The wrapped text binds \<^verbatim>\<open>__require\<close> to a cache of the module's own and to the
  resolver registered on the window, and runs the compiled code in \<^verbatim>\<open>__load\<close>.
  All the wrapper sees of the compiled code is the sequence of \<^verbatim>\<open>__require\<close>
  calls it makes, what it does with each outcome, and the \<^verbatim>\<open>module.exports\<close> it
  leaves or the value it throws: a \<open>body\<close>. The functions below are what the wrapped
  text does with a body; \<open>import_module\<close> of the environment stands for the dynamic
  import of a wrapped text whose body is not known.
\<close>

datatype body =
    Return jsval
  | Raise thrown
  | Require string "thrown + jsval \<Rightarrow> body"

type_synonym resolver =
  "string \<Rightarrow> string option \<Rightarrow> resolver_state \<Rightarrow> (thrown + jsval) \<times> resolver_state"

definition shim_require ::
  "resolver \<Rightarrow> string option \<Rightarrow> string \<Rightarrow> (string \<rightharpoonup> jsval) \<times> resolver_state
     \<Rightarrow> (thrown + jsval) \<times> (string \<rightharpoonup> jsval) \<times> resolver_state" where
  "shim_require resolve baseDir specifier s =
     (case s of (mc, st) \<Rightarrow>
        (case mc specifier of
           Some v \<Rightarrow> (Inr v, mc, st)
         | None \<Rightarrow>
             (case resolve specifier baseDir st of
                (Inl e, st') \<Rightarrow> (Inl e, mc, st')
              | (Inr resolved, st') \<Rightarrow>
                  if \<not> truthy resolved
                  then (Inl (Error (''Custom tool import not found: '' @ specifier)), mc, st')
                  else (Inr resolved, mc(specifier \<mapsto> resolved), st'))))"

primrec run_body ::
  "resolver \<Rightarrow> string option \<Rightarrow> body \<Rightarrow> (string \<rightharpoonup> jsval) \<times> resolver_state
     \<Rightarrow> (thrown + jsval) \<times> (string \<rightharpoonup> jsval) \<times> resolver_state" where
  "run_body resolve baseDir (Return exports) s = (Inr exports, s)"
| "run_body resolve baseDir (Raise e) s = (Inl e, s)"
| "run_body resolve baseDir (Require specifier k) s =
     (case shim_require resolve baseDir specifier s of
        (r, s') \<Rightarrow> run_body resolve baseDir (k r) s')"

text \<open>
  \<^verbatim>\<open>__load\<close> followed by \<^verbatim>\<open>export default\<close>: the module's default export is
  \<^verbatim>\<open>module.exports?.default ?? module.exports\<close>.
\<close>

definition shim_load ::
  "resolver \<Rightarrow> string option \<Rightarrow> body \<Rightarrow> resolver_state \<Rightarrow> (thrown + jsval) \<times> resolver_state" where
  "shim_load resolve baseDir b st =
     (case run_body resolve baseDir b (Map.empty, st) of
        (Inl e, mc, st') \<Rightarrow> (Inl e, st')
      | (Inr exports, mc, st') \<Rightarrow>
          (Inr (nullish_or
                  (case exports of Undefined \<Rightarrow> Undefined | Null \<Rightarrow> Undefined
                   | _ \<Rightarrow> get_prop exports ''default'')
                  exports), st'))"

section \<open>The module resolver (lib/custom-tool-sdk/import-map.ts)\<close>

definition builtinLoaders :: "string list" where
  "builtinLoaders = [''react'', ''react/jsx-runtime'', ''recharts'', ''zod'']"

definition buildInternalCandidates :: "string \<Rightarrow> string list" where
  "buildInternalCandidates specifier =
     (if \<not> prefix ''@/'' specifier then []
      else let relative = drop 2 specifier;
               base = ''/src/'' @ relative
           in [base, base @ ''.ts'', base @ ''.tsx'', base @ ''.js'', base @ ''.jsx'',
               base @ ''/index.ts'', base @ ''/index.tsx'', base @ ''/index.js'',
               base @ ''/index.jsx''])"

fun first_internal_loader :: "env \<Rightarrow> string list \<Rightarrow> thrown + jsval" where
  "first_internal_loader env [] = Inr Undefined"
| "first_internal_loader env (candidate # candidates) =
     (case internalModuleLoaders env candidate of
        Some loaded \<Rightarrow> loaded
      | None \<Rightarrow> first_internal_loader env candidates)"

definition loadInternalModule :: "env \<Rightarrow> string \<Rightarrow> thrown + jsval" where
  "loadInternalModule env specifier =
     first_internal_loader env (buildInternalCandidates specifier)"

definition resolveRelativePath :: "env \<Rightarrow> string \<Rightarrow> string \<Rightarrow> thrown + string" where
  "resolveRelativePath env baseDir specifier =
     (case path_join env baseDir specifier of
        Inl e \<Rightarrow> Inl e
      | Inr joined \<Rightarrow> path_normalize env joined)"

definition loadAndCompileFile ::
  "env \<Rightarrow> string \<Rightarrow> resolver_state \<Rightarrow> (thrown + jsval) \<times> resolver_state" where
  "loadAndCompileFile env filePath st =
     (case fs_exists env filePath of
        Inl e \<Rightarrow> (Inl e, st)
      | Inr found \<Rightarrow>
          if \<not> found then (Inl (Error (''File not found: '' @ filePath)), st)
          else (case path_basename env filePath of
             Inl e \<Rightarrow> (Inl e, st)
           | Inr filename \<Rightarrow>
          (case path_dirname env filePath of
             Inl e \<Rightarrow> (Inl e, st)
           | Inr fileDir \<Rightarrow>
          (case fs_readTextFile env filePath of
             Inl e \<Rightarrow> (Inl e, st)
           | Inr sourceCode \<Rightarrow>
          (case compileCustomTool env sourceCode filename of
             Inl e \<Rightarrow> (Inl e, st)
           | Inr compiled \<Rightarrow>
               resolveCustomToolDefinition env
                 (createCustomToolModuleUrl compiled filename (Some fileDir)) st)))))"

definition resolveCustomToolModule ::
  "env \<Rightarrow> string \<Rightarrow> string option \<Rightarrow> resolver_state \<Rightarrow> (thrown + jsval) \<times> resolver_state" where
  "resolveCustomToolModule env alias baseDir st =
     (case moduleCache st alias of
        Some cached \<Rightarrow> (Inr cached, st)
      | None \<Rightarrow>
        if prefix ''./'' alias \<or> prefix ''../'' alias then
          (if baseDir = None \<or> baseDir = Some []
           then (Inl (Error (''Relative import requires base directory: '' @ alias)), st)
           else (case resolveRelativePath env (the baseDir) alias of
              Inl e \<Rightarrow> (Inl e, st)
            | Inr resolvedPath \<Rightarrow>
                (let cacheKey = ''file:'' @ resolvedPath
                 in case moduleCache st cacheKey of
                      Some cached \<Rightarrow> (Inr cached, st)
                    | None \<Rightarrow>
                        (case loadAndCompileFile env resolvedPath st of
                           (Inl e, st') \<Rightarrow> (Inl e, st')
                         | (Inr module, st') \<Rightarrow>
                             (Inr module,
                              st'\<lparr>moduleCache :=
                                    (moduleCache st')(cacheKey \<mapsto> module, alias \<mapsto> module)\<rparr>)))))
        else if registry_has (moduleRegistry st) alias then
          (let registered = registry_get (moduleRegistry st) alias
           in (Inr registered, st\<lparr>moduleCache := (moduleCache st)(alias \<mapsto> registered)\<rparr>))
        else if alias \<in> set builtinLoaders then
          (case import_builtin env alias of
             Inl e \<Rightarrow> (Inl e, st)
           | Inr loaded \<Rightarrow> (Inr loaded, st\<lparr>moduleCache := (moduleCache st)(alias \<mapsto> loaded)\<rparr>))
        else
          (case loadInternalModule env alias of
             Inl e \<Rightarrow> (Inl e, st)
           | Inr internalModule \<Rightarrow>
               if truthy internalModule
               then (Inr internalModule,
                     st\<lparr>moduleCache := (moduleCache st)(alias \<mapsto> internalModule)\<rparr>)
               else (Inr Undefined, st)))"

text \<open>
  The function that \<^verbatim>\<open>registerCustomToolModuleResolver(baseDir)\<close> puts on the window under
  \<^verbatim>\<open>__talkcodyResolveCustomToolModule\<close>; the wrapper's \<^verbatim>\<open>__require\<close> calls it.
\<close>

definition registered_resolver :: "env \<Rightarrow> string option \<Rightarrow> resolver" where
  "registered_resolver env baseDir specifier requestBaseDir st =
     (let effectiveBaseDir = (case requestBaseDir of None \<Rightarrow> baseDir | Some d \<Rightarrow> Some d)
      in resolveCustomToolModule env specifier effectiveBaseDir st)"

subsection \<open>Playground resolvers\<close>

text \<open>
  \<^verbatim>\<open>playgroundModuleCache\<close> is a \<^verbatim>\<open>Map\<close> that the code iterates: it is the list of
  its entries in insertion order. A registered resolver is a closure of type \<open>'r\<close>.
\<close>

record 'r playground_state =
  playgroundResolvers :: "string \<rightharpoonup> 'r"
  playgroundModuleCache :: "(string \<times> jsval) list"

record playground_options =
  opt_permissions :: "string list option"
  opt_mockFetch :: "bool option"
  opt_timeout :: "int option"
  playgroundId :: string

definition registerPlaygroundResolver ::
  "string \<Rightarrow> 'r \<Rightarrow> 'r playground_state \<Rightarrow> 'r playground_state" where
  "registerPlaygroundResolver pid r ps =
     ps\<lparr>playgroundResolvers := (playgroundResolvers ps)(pid \<mapsto> r)\<rparr>"

definition unregisterPlaygroundResolver ::
  "string \<Rightarrow> 'r playground_state \<Rightarrow> 'r playground_state" where
  "unregisterPlaygroundResolver pid ps =
     ps\<lparr>playgroundResolvers := (playgroundResolvers ps)(pid := None),
        playgroundModuleCache := []\<rparr>"

definition resolveModuleWithPermissions ::
  "env \<Rightarrow> string \<Rightarrow> string list \<Rightarrow> bool \<Rightarrow> int \<Rightarrow> resolver_state
     \<Rightarrow> (thrown + jsval) \<times> resolver_state" where
  "resolveModuleWithPermissions env specifier perms mock timeout st =
     (if specifier = ''@/lib/tauri-fetch'' then
        (if ''net'' \<notin> set perms
         then (Inl (Error (''Permission denied: '' @ [CHR 0x27] @ ''net'' @ [CHR 0x27]
                            @ '' permission required for '' @ specifier)), st)
         else (case import_tauri_fetch env of
                 Inl e \<Rightarrow> (Inl e, st)
               | Inr fetchModule \<Rightarrow>
                   if mock then (Inr (Obj [(''simpleFetch'', Fn ''mock fetch'')]), st)
                   else (Inr (Obj [(''simpleFetch'', Fn ''fetch with timeout'')]), st)))
      else resolveCustomToolModule env specifier None st)"

text \<open>The key under which the resolver of a playground records a specifier.\<close>

definition playground_cache_key :: "string \<Rightarrow> string \<Rightarrow> string" where
  "playground_cache_key pid specifier = pid @ '':'' @ specifier"

text \<open>The closure that \<^verbatim>\<open>createPlaygroundModuleResolver(options)\<close> builds and returns.\<close>

definition playground_resolver ::
  "env \<Rightarrow> playground_options \<Rightarrow> string \<Rightarrow> 'r playground_state \<times> resolver_state
     \<Rightarrow> (thrown + jsval) \<times> 'r playground_state \<times> resolver_state" where
  "playground_resolver env options specifier s =
     (case s of (ps, st) \<Rightarrow>
        (let perms = (case opt_permissions options of None \<Rightarrow> [] | Some p \<Rightarrow> p);
             mock = (case opt_mockFetch options of None \<Rightarrow> False | Some m \<Rightarrow> m);
             timeout = (case opt_timeout options of None \<Rightarrow> 30000 | Some t \<Rightarrow> t);
             cacheKey = playground_cache_key (playgroundId options) specifier
         in case map_of (playgroundModuleCache ps) cacheKey of
              Some cached \<Rightarrow> (Inr cached, ps, st)
            | None \<Rightarrow>
                (case resolveModuleWithPermissions env specifier perms mock timeout st of
                   (Inl e, st') \<Rightarrow> (Inl e, ps, st')
                 | (Inr module, st') \<Rightarrow>
                     if module \<noteq> Undefined
                     then (Inr module,
                           ps\<lparr>playgroundModuleCache :=
                                 AList.update cacheKey module (playgroundModuleCache ps)\<rparr>, st')
                     else (Inr module, ps, st'))))"

text \<open>
  The registered closure is represented by the options it captures.
\<close>

definition createPlaygroundModuleResolver ::
  "playground_options \<Rightarrow> playground_options playground_state
     \<Rightarrow> playground_options playground_state" where
  "createPlaygroundModuleResolver options ps =
     registerPlaygroundResolver (playgroundId options) options ps"

definition clearPlaygroundCache :: "string \<Rightarrow> 'r playground_state \<Rightarrow> 'r playground_state" where
  "clearPlaygroundCache pid ps =
     ps\<lparr>playgroundModuleCache :=
          fold (\<lambda>key cache. if prefix (pid @ '':'') key then AList.delete key cache else cache)
               (map fst (playgroundModuleCache ps)) (playgroundModuleCache ps)\<rparr>"

definition getPlaygroundCacheSize :: "string option \<Rightarrow> 'r playground_state \<Rightarrow> nat" where
  "getPlaygroundCacheSize pid ps =
     (case pid of
        None \<Rightarrow> length (playgroundModuleCache ps)
      | Some p \<Rightarrow>
          if p = [] then length (playgroundModuleCache ps)
          else length (filter (\<lambda>key. prefix (p @ '':'') key) (map fst (playgroundModuleCache ps))))"

section \<open>Discovery and loading (the loader, in services/tools/custom-tool-refresh.ts)\<close>

datatype CustomToolSource = Custom | Workspace | User

datatype load_status = StatusLoaded | StatusError

record CustomToolLoadResult =
  result_name :: string
  filePath :: string
  status :: load_status
  source :: CustomToolSource
  error :: "string option"
  tool :: "jsval option"

record CustomToolLoadOptions =
  workspaceRoot :: "string option"
  customDirectory :: "string option"

definition CUSTOM_TOOLS_RELATIVE_DIR :: string where
  "CUSTOM_TOOLS_RELATIVE_DIR = ''.talkcody/tools''"

definition CUSTOM_TOOLS_SUFFIX :: string where
  "CUSTOM_TOOLS_SUFFIX = ''/'' @ CUSTOM_TOOLS_RELATIVE_DIR"

text \<open>\<^verbatim>\<open>value.replace(/\\/g, '/').replace(/\/+$/, '')\<close>\<close>

definition normalizePathForSuffix :: "string \<Rightarrow> string" where
  "normalizePathForSuffix v =
     (let slashed = map (\<lambda>c. if c = CHR 0x5C then CHR ''/'' else c) v
      in rev (dropWhile (\<lambda>c. c = CHR ''/'') (rev slashed)))"

definition resolveCustomToolsDirectory :: "env \<Rightarrow> string \<Rightarrow> thrown + string" where
  "resolveCustomToolsDirectory env customDir =
     (case path_normalize env customDir of
        Inl e \<Rightarrow> Inl e
      | Inr normalized \<Rightarrow>
          (let normalizedForSuffix = normalizePathForSuffix normalized
           in if suffix CUSTOM_TOOLS_SUFFIX normalizedForSuffix then Inr normalized
              else (case path_join env customDir CUSTOM_TOOLS_RELATIVE_DIR of
                      Inl e \<Rightarrow> Inl e
                    | Inr joined \<Rightarrow> path_normalize env joined)))"

subsection \<open>The file-name pattern\<close>

text \<open>
  File names are lists of 8-bit characters. Under the flag \<^verbatim>\<open>i\<close> two characters match
  when their canonical forms agree; for the letters of the pattern only the ASCII
  letters have the same canonical form, so canonicalisation is ASCII upper-casing.
\<close>

definition canonicalize :: "char \<Rightarrow> char" where
  "canonicalize c =
     (case map_of (zip ''abcdefghijklmnopqrstuvwxyz'' ''ABCDEFGHIJKLMNOPQRSTUVWXYZ'') c of
        Some u \<Rightarrow> u
      | None \<Rightarrow> c)"

datatype rx_atom = AnyChar | Class "char list" | Lit char

datatype rx_item = One rx_atom | Star rx_atom | Opt rx_atom | EndOfInput

text \<open>The dot matches every character but a line terminator.\<close>

fun atom_matches :: "rx_atom \<Rightarrow> char \<Rightarrow> bool" where
  "atom_matches AnyChar c = (c \<noteq> CHR 0x0A \<and> c \<noteq> CHR 0x0D)"
| "atom_matches (Class cs) c = (canonicalize c \<in> set (map canonicalize cs))"
| "atom_matches (Lit a) c = (canonicalize c = canonicalize a)"

text \<open>Whether the pattern matches at the start of the text (what follows the match is free).\<close>

fun rx_match :: "rx_item list \<Rightarrow> string \<Rightarrow> bool" where
  "rx_match [] s = True"
| "rx_match (EndOfInput # r) s = (s = [] \<and> rx_match r s)"
| "rx_match (One a # r) s =
     (case s of [] \<Rightarrow> False | c # cs \<Rightarrow> atom_matches a c \<and> rx_match r cs)"
| "rx_match (Opt a # r) s =
     ((case s of [] \<Rightarrow> False | c # cs \<Rightarrow> atom_matches a c \<and> rx_match r cs) \<or> rx_match r s)"
| "rx_match (Star a # r) s =
     ((case s of [] \<Rightarrow> False | c # cs \<Rightarrow> atom_matches a c \<and> rx_match (Star a # r) cs)
      \<or> rx_match r s)"

text \<open>\<^verbatim>\<open>pattern.test(text)\<close>: the pattern matches at some position of the text.\<close>

definition rx_test :: "rx_item list \<Rightarrow> string \<Rightarrow> bool" where
  "rx_test p s = list_ex (\<lambda>i. rx_match p (drop i s)) [0..<Suc (length s)]"

text \<open>\<^verbatim>\<open>/.*[-_]tool\.tsx?$/i\<close>\<close>

definition custom_tool_pattern :: "rx_item list" where
  "custom_tool_pattern =
     [Star AnyChar, One (Class ''-_''),
      One (Lit CHR ''t''), One (Lit CHR ''o''), One (Lit CHR ''o''), One (Lit CHR ''l''),
      One (Lit CHR ''.''), One (Lit CHR ''t''), One (Lit CHR ''s''), Opt (Lit CHR ''x''),
      EndOfInput]"

definition hasCustomToolExtension :: "string \<Rightarrow> bool" where
  "hasCustomToolExtension fileName = rx_test custom_tool_pattern fileName"

text \<open>\<^verbatim>\<open>fileName.replace(/\.(tsx|ts)$/i, '')\<close>\<close>

definition getToolNameFromFile :: "string \<Rightarrow> string" where
  "getToolNameFromFile fileName =
     (if suffix (map canonicalize ''.tsx'') (map canonicalize fileName)
      then take (length fileName - 4) fileName
      else if suffix (map canonicalize ''.ts'') (map canonicalize fileName)
      then take (length fileName - 3) fileName
      else fileName)"

text \<open>The three guards at the head of the loop over the entries of a directory.\<close>

definition is_candidate :: "DirEntry \<Rightarrow> bool" where
  "is_candidate entry =
     (if \<not> isFile entry then False
      else if suffix ''.d.ts'' (entry_name entry) then False
      else if \<not> hasCustomToolExtension (entry_name entry) then False
      else True)"

subsection \<open>The directories to scan\<close>

datatype path_value = NoPath | PlainPath string | PendingPath "thrown + string"

type_synonym directories = "(string \<times> CustomToolSource) list"

definition addDir ::
  "env \<Rightarrow> path_value \<Rightarrow> CustomToolSource \<Rightarrow> directories \<times> string set
     \<Rightarrow> directories \<times> string set" where
  "addDir env pathValue src s =
     (case s of (dirs, seen) \<Rightarrow>
        (let awaited = (case pathValue of
                          NoPath \<Rightarrow> None
                        | PlainPath p \<Rightarrow> if p = [] then None else Some p
                        | PendingPath (Inl e) \<Rightarrow> None
                        | PendingPath (Inr p) \<Rightarrow> if p = [] then None else Some p)
         in case awaited of
              None \<Rightarrow> s
            | Some resolvedPath \<Rightarrow>
                (case path_normalize env resolvedPath of
                   Inl e \<Rightarrow> s
                 | Inr resolved \<Rightarrow>
                     if resolved \<in> seen then s
                     else (dirs @ [(resolved, src)], insert resolved seen))))"

definition buildDirectories :: "env \<Rightarrow> CustomToolLoadOptions \<Rightarrow> thrown + directories" where
  "buildDirectories env options =
     (if customDirectory options \<noteq> None \<and> customDirectory options \<noteq> Some []
      then (case resolveCustomToolsDirectory env (the (customDirectory options)) of
              Inl e \<Rightarrow> Inl e
            | Inr resolvedCustom \<Rightarrow>
                Inr (fst (addDir env (PlainPath resolvedCustom) Custom ([], {}))))
      else
        (let s0 = ([], {});
             s1 = (if workspaceRoot options \<noteq> None \<and> workspaceRoot options \<noteq> Some []
                   then addDir env
                          (PendingPath (path_join env (the (workspaceRoot options))
                                          CUSTOM_TOOLS_RELATIVE_DIR))
                          Workspace s0
                   else s0);
             s2 = (case path_homeDir env of
                     Inl e \<Rightarrow> s1
                   | Inr userHome \<Rightarrow>
                       if userHome \<noteq> []
                       then addDir env
                              (PendingPath (path_join env userHome CUSTOM_TOOLS_RELATIVE_DIR))
                              User s1
                       else s1)
         in Inr (fst s2)))"

subsection \<open>Loading the tool files\<close>

text \<open>
  The assignment \<^verbatim>\<open>definition.name = toolName\<close>. The loader is a module, so the
  assignment throws a \<^verbatim>\<open>TypeError\<close> where the object does not take it; the text of
  that error depends on the engine.
\<close>

fun set_prop :: "jsval \<Rightarrow> string \<Rightarrow> jsval \<Rightarrow> thrown + jsval" where
  "set_prop (Obj ps) k v = Inr (Obj (AList.update k v ps))"
| "set_prop d k v = Inl (Error (''Cannot assign to property '' @ k))"

text \<open>
  The check of the default export, and the default of its name: the name of the result
  and the definition.
\<close>

definition check_definition :: "jsval \<Rightarrow> string \<Rightarrow> thrown + string \<times> jsval" where
  "check_definition definition tool_name =
     (if \<not> truthy definition \<or> typeof definition \<noteq> ''object''
      then Inl (Error ''Invalid tool export'')
      else if \<not> truthy (get_prop definition ''name'')
              \<or> typeof (get_prop definition ''name'') \<noteq> ''string''
      then (case set_prop definition ''name'' (Str tool_name) of
              Inl e \<Rightarrow> Inl e
            | Inr named \<Rightarrow> Inr (tool_name, named))
      else (case get_prop definition ''name'' of
              Str n \<Rightarrow> Inr (n, definition)
            | _ \<Rightarrow> Inr (tool_name, definition)))"

text \<open>The body of the inner \<^verbatim>\<open>try\<close>: read, compile, import, check.\<close>

definition load_tool_file ::
  "env \<Rightarrow> string \<Rightarrow> string \<Rightarrow> string \<Rightarrow> resolver_state
     \<Rightarrow> (thrown + string \<times> jsval) \<times> resolver_state" where
  "load_tool_file env path entryName tool_name st =
     (case fs_readTextFile env path of
        Inl e \<Rightarrow> (Inl e, st)
      | Inr sourceCode \<Rightarrow>
     (case compileCustomTool env sourceCode entryName of
        Inl e \<Rightarrow> (Inl e, st)
      | Inr compiled \<Rightarrow>
     (case path_dirname env path of
        Inl e \<Rightarrow> (Inl e, st)
      | Inr fileDir \<Rightarrow>
     (case resolveCustomToolDefinition env
             (createCustomToolModuleUrl compiled entryName (Some fileDir)) st of
        (Inl e, st') \<Rightarrow> (Inl e, st')
      | (Inr definition, st') \<Rightarrow>
          (case check_definition definition tool_name of
             Inl e \<Rightarrow> (Inl e, st')
           | Inr named \<Rightarrow> (Inr named, st'))))))"

text \<open>The result pushed at the end of the \<^verbatim>\<open>try\<close>, and the one pushed in a \<^verbatim>\<open>catch\<close>.\<close>

definition loaded_result ::
  "string \<Rightarrow> CustomToolSource \<Rightarrow> string \<times> jsval \<Rightarrow> CustomToolLoadResult" where
  "loaded_result path src named =
     \<lparr>result_name = fst named, filePath = path, status = StatusLoaded, source = src,
      error = None, tool = Some (snd named)\<rparr>"

definition error_result ::
  "string \<Rightarrow> string \<Rightarrow> CustomToolSource \<Rightarrow> string \<Rightarrow> CustomToolLoadResult" where
  "error_result name path src msg =
     \<lparr>result_name = name, filePath = path, status = StatusError, source = src,
      error = Some msg, tool = None\<rparr>"

text \<open>
  The loop over the entries of one directory. A value leaves the loop (\<open>Some\<close>) for the
  directory's \<^verbatim>\<open>catch\<close> when \<^verbatim>\<open>join\<close> throws it, which is called outside the
  inner \<^verbatim>\<open>try\<close>, or when the inner \<^verbatim>\<open>catch\<close> throws it while it takes the message
  of the value it caught.
\<close>

fun load_entries ::
  "env \<Rightarrow> string \<Rightarrow> CustomToolSource \<Rightarrow> DirEntry list
     \<Rightarrow> CustomToolLoadResult list \<times> resolver_state
     \<Rightarrow> thrown option \<times> CustomToolLoadResult list \<times> resolver_state" where
  "load_entries env dirPath src [] acc = (None, acc)"
| "load_entries env dirPath src (entry # entries) acc =
     (if \<not> is_candidate entry then load_entries env dirPath src entries acc
      else (case path_join env dirPath (entry_name entry) of
              Inl e \<Rightarrow> (Some e, acc)
            | Inr path \<Rightarrow>
                (case load_tool_file env path (entry_name entry)
                        (getToolNameFromFile (entry_name entry)) (snd acc) of
                   (Inr named, st') \<Rightarrow>
                     load_entries env dirPath src entries
                       (fst acc @ [loaded_result path src named], st')
                 | (Inl err, st') \<Rightarrow>
                     (case error_message err of
                        Inl t \<Rightarrow> (Some t, fst acc, st')
                      | Inr msg \<Rightarrow>
                          load_entries env dirPath src entries
                            (fst acc @ [error_result (getToolNameFromFile (entry_name entry))
                                          path src msg], st')))))"

text \<open>
  The directory's \<^verbatim>\<open>catch\<close>: one error result for the directory, unless taking the
  message throws, which nothing catches.
\<close>

definition catch_directory ::
  "string \<Rightarrow> CustomToolSource \<Rightarrow> thrown \<Rightarrow> CustomToolLoadResult list \<times> resolver_state
     \<Rightarrow> thrown option \<times> CustomToolLoadResult list \<times> resolver_state" where
  "catch_directory dirPath src e acc =
     (case error_message e of
        Inl t \<Rightarrow> (Some t, acc)
      | Inr msg \<Rightarrow> (None, fst acc @ [error_result dirPath dirPath src msg], snd acc))"

definition load_directory ::
  "env \<Rightarrow> string \<times> CustomToolSource \<Rightarrow> CustomToolLoadResult list \<times> resolver_state
     \<Rightarrow> thrown option \<times> CustomToolLoadResult list \<times> resolver_state" where
  "load_directory env dir acc =
     (case dir of (dirPath, src) \<Rightarrow>
        (case fs_exists env dirPath of
           Inl e \<Rightarrow> catch_directory dirPath src e acc
         | Inr found \<Rightarrow>
             if \<not> found
             then (None, fst acc @ [error_result dirPath dirPath src ''Directory not found''],
                   snd acc)
             else (case fs_readDir env dirPath of
                     Inl e \<Rightarrow> catch_directory dirPath src e acc
                   | Inr entries \<Rightarrow>
                       (case load_entries env dirPath src entries acc of
                          (None, acc') \<Rightarrow> (None, acc')
                        | (Some e, acc') \<Rightarrow> catch_directory dirPath src e acc'))))"

text \<open>The loop over the directories; a value that leaves it rejects the whole load.\<close>

fun load_directories ::
  "env \<Rightarrow> (string \<times> CustomToolSource) list \<Rightarrow> CustomToolLoadResult list \<times> resolver_state
     \<Rightarrow> thrown option \<times> CustomToolLoadResult list \<times> resolver_state" where
  "load_directories env [] acc = (None, acc)"
| "load_directories env (dir # dirs) acc =
     (case load_directory env dir acc of
        (Some t, acc') \<Rightarrow> (Some t, acc')
      | (None, acc') \<Rightarrow> load_directories env dirs acc')"

definition loadCustomTools ::
  "env \<Rightarrow> CustomToolLoadOptions \<Rightarrow> resolver_state
     \<Rightarrow> (thrown + CustomToolLoadResult list) \<times> resolver_state" where
  "loadCustomTools env options st =
     (case buildDirectories env options of
        Inl e \<Rightarrow> (Inl e, st)
      | Inr dirs \<Rightarrow>
          if length dirs = 0 then (Inr [], st)
          else (case load_directories env dirs ([], st) of
                  (None, results, st') \<Rightarrow> (Inr results, st')
                | (Some t, results, st') \<Rightarrow> (Inl t, st')))"

section \<open>Notions used to state the properties\<close>

text \<open>A name ends with a suffix, letters compared without regard to case.\<close>

definition ends_with_ci :: "string \<Rightarrow> string \<Rightarrow> bool" where
  "ends_with_ci suf fileName = suffix (map canonicalize suf) (map canonicalize fileName)"


text \<open>
  The paths of the candidate tool files of a directory, in the order of its entries.
\<close>

definition candidate_paths :: "env \<Rightarrow> string \<Rightarrow> DirEntry list \<Rightarrow> string list" where
  "candidate_paths env dirPath entries =
     map (\<lambda>entry. projr (path_join env dirPath (entry_name entry))) (filter is_candidate entries)"

text \<open>
  A load result is either an error with a message and no definition, or a loaded
  definition with no message.
\<close>

definition well_formed_result :: "CustomToolSource \<Rightarrow> CustomToolLoadResult \<Rightarrow> bool" where
  "well_formed_result src r =
     (source r = src \<and>
      (if status r = StatusError then error r \<noteq> None \<and> tool r = None
       else error r = None \<and> tool r \<noteq> None))"

text \<open>
  A directory can be scanned: it exists, its entries can be listed, and the path of every
  candidate file can be built. These are the calls outside the per-file \<^verbatim>\<open>try\<close>.
\<close>

definition scannable :: "env \<Rightarrow> string \<Rightarrow> bool" where
  "scannable env dirPath =
     (fs_exists env dirPath = Inr True \<and>
      (case fs_readDir env dirPath of
         Inl e \<Rightarrow> False
       | Inr entries \<Rightarrow>
           list_all (\<lambda>entry. is_candidate entry \<longrightarrow>
                       \<not> isl (path_join env dirPath (entry_name entry))) entries))"

text \<open>Every failure of a tool file is a value whose message can be taken.\<close>

definition failures_have_messages :: "env \<Rightarrow> bool" where
  "failures_have_messages env =
     (\<forall>path entryName tool_name st e st'.
        load_tool_file env path entryName tool_name st = (Inl e, st')
          \<longrightarrow> (\<exists>msg. error_message e = Inr msg))"

section \<open>An example environment\<close>

text \<open>
  A small file system and runtime on which the properties are instantiated. The
  directories \<^verbatim>\<open>/a\<close> and \<^verbatim>\<open>/b\<close> have a \<^verbatim>\<open>helper.ts\<close> each. The tools directory
  under \<^verbatim>\<open>/w\<close> lists a valid tool file, a file that does not compile, a file whose
  default export is a number, a file whose default export is a frozen object without a
  name, a file whose module throws a string, a file that cannot be read, and a file that
  is no tool. The tools directory
  under \<^verbatim>\<open>/v\<close> lists a file whose module throws an object without a prototype, of
  which \<^verbatim>\<open>String\<close> throws a \<^verbatim>\<open>TypeError\<close>, and after it a valid tool file.
\<close>

fun path_segments :: "string \<Rightarrow> string \<Rightarrow> string list" where
  "path_segments acc [] = [rev acc]"
| "path_segments acc (c # cs) =
     (if c = CHR ''/'' then rev acc # path_segments [] cs else path_segments (c # acc) cs)"

definition example_normalize :: "string \<Rightarrow> string" where
  "example_normalize p =
     concat (map (\<lambda>seg. CHR ''/'' # seg)
                 (filter (\<lambda>seg. seg \<noteq> [] \<and> seg \<noteq> ''.'') (path_segments [] p)))"

definition example_files :: "(string \<times> string) list" where
  "example_files =
     [(''/a/helper.ts'', ''A''),
      (''/b/helper.ts'', ''B''),
      (''/w/.talkcody/tools/good-tool.ts'', ''good''),
      (''/w/.talkcody/tools/bad-tool.ts'', ''syntax error!''),
      (''/w/.talkcody/tools/five-tool.ts'', ''five''),
      (''/w/.talkcody/tools/sealed-tool.ts'', ''sealed''),
      (''/w/.talkcody/tools/loud-tool.ts'', ''loud''),
      (''/w/.talkcody/tools/readme.md'', ''notes''),
      (''/v/.talkcody/tools/odd-tool.ts'', ''odd''),
      (''/v/.talkcody/tools/good-tool.ts'', ''good'')]"

text \<open>By the text of a module, its default export or the value it throws when it is run.\<close>

definition example_modules :: "(string \<times> (thrown + jsval)) list" where
  "example_modules =
     [(''A'', Inr (Str ''helper of a'')),
      (''B'', Inr (Str ''helper of b'')),
      (''good'', Inr (Obj [(''name'', Str ''good''), (''execute'', Fn ''execute'')])),
      (''five'', Inr (Num 5)),
      (''sealed'', Inr (Frozen [(''execute'', Fn ''execute'')])),
      (''loud'', Inl (Thrown ''boom'')),
      (''odd'', Inl (Unprintable (Error ''Cannot convert object to primitive value'')))]"

definition example_entries :: "(string \<times> DirEntry list) list" where
  "example_entries =
     [(''/w/.talkcody/tools'',
       [\<lparr>entry_name = ''good-tool.ts'', isFile = True, isDirectory = False\<rparr>,
        \<lparr>entry_name = ''bad-tool.ts'', isFile = True, isDirectory = False\<rparr>,
        \<lparr>entry_name = ''five-tool.ts'', isFile = True, isDirectory = False\<rparr>,
        \<lparr>entry_name = ''sealed-tool.ts'', isFile = True, isDirectory = False\<rparr>,
        \<lparr>entry_name = ''loud-tool.ts'', isFile = True, isDirectory = False\<rparr>,
        \<lparr>entry_name = ''gone-tool.ts'', isFile = True, isDirectory = False\<rparr>,
        \<lparr>entry_name = ''readme.md'', isFile = True, isDirectory = False\<rparr>]),
      (''/v/.talkcody/tools'',
       [\<lparr>entry_name = ''odd-tool.ts'', isFile = True, isDirectory = False\<rparr>,
        \<lparr>entry_name = ''good-tool.ts'', isFile = True, isDirectory = False\<rparr>])]"

definition example_env :: env where
  "example_env =
     \<lparr>path_normalize = (\<lambda>p. Inr (example_normalize p)),
      path_join = (\<lambda>a b. Inr (a @ ''/'' @ b)),
      path_dirname = (\<lambda>p. Inr (rev (drop 1 (dropWhile (\<lambda>c. c \<noteq> CHR ''/'') (rev p))))),
      path_basename = (\<lambda>p. Inr (rev (takeWhile (\<lambda>c. c \<noteq> CHR ''/'') (rev p)))),
      path_homeDir = Inr ''/home/u'',
      fs_exists = (\<lambda>p. Inr (p \<in> set (map fst example_entries) \<or> p \<in> set (map fst example_files))),
      fs_readDir = (\<lambda>p. case map_of example_entries p of
                           Some entries \<Rightarrow> Inr entries
                         | None \<Rightarrow> Inl (Error ''Not a directory'')),
      fs_readTextFile = (\<lambda>p. case map_of example_files p of
                                Some content \<Rightarrow> Inr content
                              | None \<Rightarrow> Inl (Error ''No such file'')),
      swc_transform = (\<lambda>source filename tsx.
                          if source = ''syntax error!'' then Inl (Error ''Syntax Error'')
                          else Inr \<lparr>code = source, sourceMap = Some ''map''\<rparr>),
      import_module = (\<lambda>w st. case map_of example_modules (m_code w) of
                                 Some (Inr v) \<Rightarrow> (Inr [(''default'', v)], st)
                               | Some (Inl t) \<Rightarrow> (Inl t, st)
                               | None \<Rightarrow> (Inl (Error ''Failed to import module''), st)),
      import_builtin = (\<lambda>alias. Inr (Obj [(''builtin'', Str alias)])),
      internalModuleLoaders = [''/src/lib/utils.ts'' \<mapsto> Inr (Obj [(''cn'', Fn ''cn'')])],
      import_tauri_fetch = Inr (Obj [(''simpleFetch'', Fn ''simpleFetch'')])\<rparr>"


definition empty_resolver_state :: resolver_state where
  "empty_resolver_state = \<lparr>moduleCache = Map.empty, moduleRegistry = Map.empty\<rparr>"

section \<open>Properties of the permission store\<close>

text \<open>
  Claim C5. \<^verbatim>\<open>grantPermission(toolName, permissions)\<close> replaces the tool's whole
  grant record by the new permission list and the fresh timestamp: after granting
  \<open>P1\<close> and then \<open>P2\<close> to the same tool the stored grant holds exactly \<open>P2\<close>,
  with nothing of \<open>P1\<close>.
\<close>

theorem grantPermission_replaces:
  "getGrant (grantPermission now tn P store) tn
     = Some \<lparr>toolName = tn, permissions = P, grantedAt = now\<rparr>
   \<and> getGrant (grantPermission now2 tn P2 (grantPermission now1 tn P1 store)) tn
     = Some \<lparr>toolName = tn, permissions = P2, grantedAt = now2\<rparr>
   \<and> grantPermission now2 tn P2 (grantPermission now1 tn P1 store)
     = grantPermission now2 tn P2 store"
  by (simp add: grantPermission_def getGrant_def Let_def)

text \<open>
  Claim C9. With an empty requested list \<^verbatim>\<open>checkCustomToolPermissions\<close> answers
  allowed with nothing missing, whatever the grant store holds, also when it holds no
  grant for the tool: the answer is the same in every store, so the store is not
  consulted. A non-empty list is checked against the store: with no grant, all of it is
  missing.
\<close>

theorem checkCustomToolPermissions_empty_request:
  "checkCustomToolPermissions store tn [] = \<lparr>allowed = True, missing = []\<rparr>
   \<and> checkCustomToolPermissions \<lparr>grants = Map.empty\<rparr> tn []
     = \<lparr>allowed = True, missing = []\<rparr>
   \<and> checkCustomToolPermissions store tn [] = checkCustomToolPermissions store' tn' []
   \<and> checkCustomToolPermissions \<lparr>grants = Map.empty\<rparr> tn (p # ps)
     = \<lparr>allowed = False, missing = p # ps\<rparr>"
  by (simp add: checkCustomToolPermissions_def getGrant_def)

section \<open>Properties of the tool adapter\<close>

text \<open>
  Claim C2, as amended. When the definition declares a non-empty permission list, the
  execute wrapper replaces the tool's grant in the store by that list and the
  definition's own execute function then runs in the store so changed, whatever was
  granted before. When the list is empty or absent, the wrapper grants nothing: the
  definition's execute function runs in the store as it was.
\<close>

theorem adapted_execute_grants_declared_nonempty_list:
  "(def_permissions d = Some ps \<and> ps \<noteq> [] \<longrightarrow>
      adapted_execute now d params context store
        = def_execute d params context (grantPermission now (def_name d) ps store)
      \<and> getGrant (grantPermission now (def_name d) ps store) (def_name d)
        = Some \<lparr>toolName = def_name d, permissions = ps, grantedAt = now\<rparr>)
   \<and> (def_permissions d = None \<or> def_permissions d = Some [] \<longrightarrow>
      adapted_execute now d params context store = def_execute d params context store)"
  by (auto simp add: adapted_execute_def grantPermission_def getGrant_def
        ensureCustomToolPermissions_def Let_def)

text \<open>
  The theorem at a tool \<open>t\<close> that holds the grant \<open>[Fs]\<close>: the execute function of a
  definition declaring \<open>[Net]\<close> sees the grant \<open>[Net]\<close>, the one of a definition
  declaring nothing sees \<open>[Fs]\<close>.
\<close>

theorem adapted_execute_grants_declared_nonempty_list_witness:
  "fst (adapted_execute 5
          \<lparr>def_name = ''t'', def_permissions = Some [Net],
           def_execute = (\<lambda>(p::unit) (c::unit) s.
                             (Inr (map_option permissions (getGrant s ''t'')), s))\<rparr>
          () () (grantPermission 1 ''t'' [Fs] \<lparr>grants = Map.empty\<rparr>))
     = Inr (Some [Net])
   \<and> fst (adapted_execute 5
          \<lparr>def_name = ''t'', def_permissions = None,
           def_execute = (\<lambda>(p::unit) (c::unit) s.
                             (Inr (map_option permissions (getGrant s ''t'')), s))\<rparr>
          () () (grantPermission 1 ''t'' [Fs] \<lparr>grants = Map.empty\<rparr>))
     = Inr (Some [Fs])"
  using adapted_execute_grants_declared_nonempty_list
    [of "\<lparr>def_name = ''t'', def_permissions = Some [Net],
           def_execute = (\<lambda>(p::unit) (c::unit) s.
                             (Inr (map_option permissions (getGrant s ''t'')), s))\<rparr>"
        "[Net]" 5 "()" "()" "grantPermission 1 ''t'' [Fs] \<lparr>grants = Map.empty\<rparr>"]
    adapted_execute_grants_declared_nonempty_list
    [of "\<lparr>def_name = ''t'', def_permissions = None,
           def_execute = (\<lambda>(p::unit) (c::unit) s.
                             (Inr (map_option permissions (getGrant s ''t'')), s))\<rparr>"
        "[]" 5 "()" "()" "grantPermission 1 ''t'' [Fs] \<lparr>grants = Map.empty\<rparr>"]
  by (simp add: grantPermission_def getGrant_def)

text \<open>
  Claim C2 as stated fails for the empty and the absent list. The tool \<open>t\<close> holds the
  grant \<open>[Fs]\<close> of time 1. Wrapped at time 5, a definition with no permission list
  runs its execute function with \<open>[Fs]\<close> still granted, and a definition with the
  empty list leaves the grant of time 1 in the store; granting the declared (empty) list
  would have left the grant \<open>[]\<close> of time 5.
\<close>

theorem adapted_execute_empty_list_counterexample:
  "fst (adapted_execute 5
          \<lparr>def_name = ''t'', def_permissions = None,
           def_execute = (\<lambda>(p::unit) (c::unit) s.
                             (Inr (map_option permissions (getGrant s ''t'')), s))\<rparr>
          () () (grantPermission 1 ''t'' [Fs] \<lparr>grants = Map.empty\<rparr>))
     = Inr (Some [Fs])
   \<and> getGrant (snd (adapted_execute 5
          \<lparr>def_name = ''t'', def_permissions = Some [],
           def_execute = (\<lambda>(p::unit) (c::unit) s. (Inr (), s))\<rparr>
          () () (grantPermission 1 ''t'' [Fs] \<lparr>grants = Map.empty\<rparr>))) ''t''
     = Some \<lparr>toolName = ''t'', permissions = [Fs], grantedAt = 1\<rparr>
   \<and> getGrant (grantPermission 5 ''t'' []
                 (grantPermission 1 ''t'' [Fs] \<lparr>grants = Map.empty\<rparr>)) ''t''
     = Some \<lparr>toolName = ''t'', permissions = [], grantedAt = 5\<rparr>"
  by (simp add: adapted_execute_def grantPermission_def getGrant_def
        ensureCustomToolPermissions_def Let_def)

section \<open>Properties of the playground cache\<close>

text \<open>
  Claim C10. \<^verbatim>\<open>unregisterPlaygroundResolver(playgroundId)\<close> removes the registration of
  that playground only, and empties the whole playground module cache: no entry of any
  playground is left.
\<close>

theorem unregisterPlaygroundResolver_clears_whole_cache:
  "playgroundResolvers (unregisterPlaygroundResolver pid ps)
     = (playgroundResolvers ps)(pid := None)
   \<and> playgroundModuleCache (unregisterPlaygroundResolver pid ps) = []
   \<and> map_of (playgroundModuleCache (unregisterPlaygroundResolver pid ps))
         (playground_cache_key other specifier) = None"
  by (simp add: unregisterPlaygroundResolver_def)

text \<open>What the loop of \<^verbatim>\<open>clearPlaygroundCache\<close> leaves of the cache.\<close>

lemma fold_delete_lookup:
  "map_of (fold (\<lambda>key cache. if P key then AList.delete key cache else cache) keys cache) k
     = (if P k \<and> k \<in> set keys then None else map_of cache k)"
  by (induction keys arbitrary: cache) (auto simp: delete_conv')

lemma clearPlaygroundCache_lookup:
  "map_of (playgroundModuleCache (clearPlaygroundCache pid ps)) key
     = (if prefix (pid @ '':'') key then None else map_of (playgroundModuleCache ps) key)"
  by (auto simp: clearPlaygroundCache_def fold_delete_lookup map_of_eq_None_iff)

lemma clearPlaygroundCache_removes_own_entries:
  "map_of (playgroundModuleCache (clearPlaygroundCache pid ps))
     (playground_cache_key pid specifier) = None"
  by (simp add: clearPlaygroundCache_lookup playground_cache_key_def)

text \<open>Two different ids without a colon never share a key prefix.\<close>

lemma colon_free_ids_do_not_collide:
  assumes "CHR '':'' \<notin> set a" and "CHR '':'' \<notin> set b" and "a \<noteq> b"
  shows "\<not> prefix (a @ '':'') (playground_cache_key b specifier)"
proof
  assume "prefix (a @ '':'') (playground_cache_key b specifier)"
  then obtain r where "b @ '':'' @ specifier = (a @ '':'') @ r"
    by (auto simp: prefix_def playground_cache_key_def)
  then have "b @ CHR '':'' # specifier = a @ CHR '':'' # r" by simp
  then show False using assms
    by (auto simp: append_eq_append_conv2 append_eq_Cons_conv Cons_eq_append_conv)
qed

lemma clearPlaygroundCache_keeps_colon_free_ids:
  assumes "CHR '':'' \<notin> set a" and "CHR '':'' \<notin> set b" and "a \<noteq> b"
  shows "map_of (playgroundModuleCache (clearPlaygroundCache a ps))
           (playground_cache_key b specifier)
         = map_of (playgroundModuleCache ps) (playground_cache_key b specifier)"
  using colon_free_ids_do_not_collide [OF assms] by (simp add: clearPlaygroundCache_lookup)

text \<open>An id that extends another id by a colon loses its entries with the other's.\<close>

lemma clearPlaygroundCache_removes_extended_ids:
  "map_of (playgroundModuleCache (clearPlaygroundCache a ps))
     (playground_cache_key (a @ '':'' @ rest) specifier) = None"
  by (simp add: clearPlaygroundCache_lookup playground_cache_key_def)

text \<open>
  Claim C8 at the playground ids \<open>a\<close> and \<open>a:b\<close>. The resolver of playground
  \<open>a:b\<close> records the module \<open>x\<close> under the key \<open>a:b:x\<close>, which starts with
  \<open>a:\<close>: clearing the cache of playground \<open>a\<close> deletes it.
\<close>

theorem clearPlaygroundCache_prefix_collision:
  "playgroundModuleCache (fst (snd (playground_resolver env
       \<lparr>opt_permissions = None, opt_mockFetch = None, opt_timeout = None,
        playgroundId = ''a:b''\<rparr>
       ''x''
       (\<lparr>playgroundResolvers = Map.empty, playgroundModuleCache = []\<rparr>,
        \<lparr>moduleCache = Map.empty, moduleRegistry = [''x'' \<mapsto> Obj []]\<rparr>))))
     = [(playground_cache_key ''a:b'' ''x'', Obj [])]
   \<and> playgroundModuleCache (clearPlaygroundCache ''a''
        \<lparr>playgroundResolvers = Map.empty,
         playgroundModuleCache = [(playground_cache_key ''a:b'' ''x'', Obj [])]\<rparr>) = []"
  by (simp add: playground_resolver_def resolveModuleWithPermissions_def
        resolveCustomToolModule_def registry_has_def registry_get_def playground_cache_key_def
        clearPlaygroundCache_def Let_def)

section \<open>Properties of the module resolver\<close>

text \<open>
  Claim C1 at two tool files in \<^verbatim>\<open>/a\<close> and \<^verbatim>\<open>/b\<close> that both import
  \<^verbatim>\<open>./helper.ts\<close>. The two imports resolve to the distinct paths
  \<^verbatim>\<open>/a/helper.ts\<close> and \<^verbatim>\<open>/b/helper.ts\<close>, and each, resolved first, yields the
  helper of its own directory. Resolved after the import from \<^verbatim>\<open>/a\<close>, the import from
  \<^verbatim>\<open>/b\<close> is answered with the helper of \<^verbatim>\<open>/a\<close>, from the entry the first
  resolution stored under the specifier text, and no entry for
  \<^verbatim>\<open>file:/b/helper.ts\<close> is recorded.
\<close>

theorem relative_specifier_cache_collision:
  "resolveRelativePath example_env ''/a'' ''./helper.ts'' = Inr ''/a/helper.ts''
   \<and> resolveRelativePath example_env ''/b'' ''./helper.ts'' = Inr ''/b/helper.ts''
   \<and> fst (resolveCustomToolModule example_env ''./helper.ts'' (Some ''/a'') empty_resolver_state)
       = Inr (Str ''helper of a'')
   \<and> fst (resolveCustomToolModule example_env ''./helper.ts'' (Some ''/b'') empty_resolver_state)
       = Inr (Str ''helper of b'')
   \<and> fst (resolveCustomToolModule example_env ''./helper.ts'' (Some ''/b'')
            (snd (resolveCustomToolModule example_env ''./helper.ts'' (Some ''/a'')
                    empty_resolver_state)))
       = Inr (Str ''helper of a'')
   \<and> moduleCache (snd (resolveCustomToolModule example_env ''./helper.ts'' (Some ''/b'')
            (snd (resolveCustomToolModule example_env ''./helper.ts'' (Some ''/a'')
                    empty_resolver_state)))) ''file:/b/helper.ts'' = None"
  by (simp add: resolveCustomToolModule_def resolveRelativePath_def loadAndCompileFile_def
        example_env_def example_normalize_def example_files_def example_modules_def
        empty_resolver_state_def compileCustomTool_def resolveCustomToolDefinition_def
        createCustomToolModuleUrl_def convertCommonJsToAsyncRequire_def)

text \<open>
  In general: once a relative specifier has been loaded from one directory, every later
  resolution of the same specifier text returns that module, whatever the base directory.
\<close>

lemma relative_import_answers_later_imports:
  assumes "prefix ''./'' alias \<or> prefix ''../'' alias"
    and "a \<noteq> []"
    and "moduleCache st alias = None"
    and "resolveRelativePath env a alias = Inr pa"
    and "moduleCache st (''file:'' @ pa) = None"
    and "loadAndCompileFile env pa st = (Inr m, st1)"
  shows "\<exists>st2. resolveCustomToolModule env alias (Some a) st = (Inr m, st2)
           \<and> resolveCustomToolModule env alias b st2 = (Inr m, st2)"
proof -
  let ?st2 = "st1\<lparr>moduleCache := (moduleCache st1)(''file:'' @ pa \<mapsto> m, alias \<mapsto> m)\<rparr>"
  have "resolveCustomToolModule env alias (Some a) st = (Inr m, ?st2)"
    using assms by (simp add: resolveCustomToolModule_def Let_def)
  moreover have "resolveCustomToolModule env alias b ?st2 = (Inr m, ?st2)"
    by (simp add: resolveCustomToolModule_def)
  ultimately show ?thesis by blast
qed

text \<open>
  A bare specifier that is not cached, is no property of the registry object, is no
  built-in and has no internal module resolves to \<^verbatim>\<open>undefined\<close>, with no error and
  no change of state.
\<close>

lemma first_internal_loader_none:
  "list_all (\<lambda>c. internalModuleLoaders env c = None) cs
     \<Longrightarrow> first_internal_loader env cs = Inr Undefined"
  by (induction cs) auto

lemma resolve_unknown_bare_specifier:
  assumes "moduleCache st alias = None"
    and "\<not> prefix ''./'' alias" and "\<not> prefix ''../'' alias"
    and "\<not> registry_has (moduleRegistry st) alias"
    and "alias \<notin> set builtinLoaders"
    and "list_all (\<lambda>c. internalModuleLoaders env c = None) (buildInternalCandidates alias)"
  shows "resolveCustomToolModule env alias baseDir st = (Inr Undefined, st)"
proof -
  have "loadInternalModule env alias = Inr Undefined"
    using assms(6) by (simp add: loadInternalModule_def first_internal_loader_none)
  then show ?thesis using assms by (simp add: resolveCustomToolModule_def)
qed

text \<open>
  The error of an unresolved import is raised by \<^verbatim>\<open>__require\<close>, when the module calls
  it; a module that calls it for no unresolved specifier loads.
\<close>

lemma shim_require_not_found:
  assumes "mc specifier = None" and "resolve specifier baseDir st = (Inr Undefined, st')"
  shows "shim_require resolve baseDir specifier (mc, st)
           = (Inl (Error (''Custom tool import not found: '' @ specifier)), mc, st')"
  using assms by (simp add: shim_require_def)

lemma shim_load_without_require:
  "shim_load resolve baseDir (Return (Obj exports)) st
     = (Inr (nullish_or (get_prop (Obj exports) ''default'') (Obj exports)), st)"
  by (simp add: shim_load_def)

text \<open>
  Claim C3 at the bare specifier \<^verbatim>\<open>toString\<close>, with nothing registered and an empty
  cache. The test \<^verbatim>\<open>alias in moduleRegistry\<close> holds for the names an object inherits,
  so the resolver returns the inherited function and caches it, and \<^verbatim>\<open>__require\<close>
  raises no error for this specifier. Likewise the bare specifier
  \<^verbatim>\<open>file:/a/helper.ts\<close>, once \<^verbatim>\<open>./helper.ts\<close> has been resolved from \<^verbatim>\<open>/a\<close>,
  is answered with that helper from the cache entry of the relative import.
\<close>

theorem inherited_property_resolves:
  "resolveCustomToolModule env ''toString'' baseDir empty_resolver_state
     = (Inr (Fn ''toString''),
        empty_resolver_state\<lparr>moduleCache := [''toString'' \<mapsto> Fn ''toString'']\<rparr>)
   \<and> fst (shim_require (registered_resolver env None) baseDir ''toString''
            (Map.empty, empty_resolver_state))
     = Inr (Fn ''toString'')
   \<and> fst (resolveCustomToolModule example_env ''file:/a/helper.ts'' None
            (snd (resolveCustomToolModule example_env ''./helper.ts'' (Some ''/a'')
                    empty_resolver_state)))
     = Inr (Str ''helper of a'')"
proof -
  have "resolveCustomToolModule env ''toString'' baseDir empty_resolver_state
     = (Inr (Fn ''toString''),
        empty_resolver_state\<lparr>moduleCache := [''toString'' \<mapsto> Fn ''toString'']\<rparr>)"
    by (simp add: resolveCustomToolModule_def registry_has_def registry_get_def
          objectPrototype_def objectPrototypeMethods_def empty_resolver_state_def Let_def)
  moreover have "fst (shim_require (registered_resolver env None) baseDir ''toString''
            (Map.empty, empty_resolver_state))
     = Inr (Fn ''toString'')"
    by (simp add: resolveCustomToolModule_def registry_has_def registry_get_def
          objectPrototype_def objectPrototypeMethods_def empty_resolver_state_def shim_require_def
          registered_resolver_def Let_def split: option.splits)
  moreover have "fst (resolveCustomToolModule example_env ''file:/a/helper.ts'' None
            (snd (resolveCustomToolModule example_env ''./helper.ts'' (Some ''/a'')
                    empty_resolver_state)))
     = Inr (Str ''helper of a'')"
    by (simp add: resolveCustomToolModule_def resolveRelativePath_def loadAndCompileFile_def
          example_env_def example_normalize_def example_files_def example_modules_def
          empty_resolver_state_def compileCustomTool_def resolveCustomToolDefinition_def
          createCustomToolModuleUrl_def convertCommonJsToAsyncRequire_def)
  ultimately show ?thesis by blast
qed

section \<open>Properties of the file-name filter\<close>

lemma rx_test_iff: "rx_test p s \<longleftrightarrow> (\<exists>i\<le>length s. rx_match p (drop i s))"
  by (auto simp: rx_test_def list_ex_iff less_Suc_eq_le simp del: upt_Suc)

text \<open>A leading star may match nothing, and whatever it matches is dropped from the text.\<close>

lemma rx_match_Star_skip: "rx_match r s \<Longrightarrow> rx_match (Star a # r) s"
  by simp

lemma rx_match_Star_drop:
  "rx_match (Star a # r) s \<Longrightarrow> \<exists>k\<le>length s. rx_match r (drop k s)"
proof (induction s)
  case Nil
  then show ?case by simp
next
  case (Cons c cs)
  from Cons.prems have "(atom_matches a c \<and> rx_match (Star a # r) cs) \<or> rx_match r (c # cs)"
    by simp
  then show ?case
  proof
    assume "atom_matches a c \<and> rx_match (Star a # r) cs"
    then obtain k where "k \<le> length cs" "rx_match r (drop k cs)"
      using Cons.IH by blast
    then have "Suc k \<le> length (c # cs) \<and> rx_match r (drop (Suc k) (c # cs))" by simp
    then show ?thesis by blast
  next
    assume "rx_match r (c # cs)"
    then have "0 \<le> length (c # cs) \<and> rx_match r (drop 0 (c # cs))" by simp
    then show ?thesis by blast
  qed
qed

lemma rx_test_Star: "rx_test (Star a # r) s \<longleftrightarrow> (\<exists>i\<le>length s. rx_match r (drop i s))"
proof
  assume "rx_test (Star a # r) s"
  then obtain i where i: "i \<le> length s" "rx_match (Star a # r) (drop i s)"
    by (auto simp: rx_test_iff)
  then obtain k where k: "k \<le> length (drop i s)" "rx_match r (drop k (drop i s))"
    using rx_match_Star_drop by blast
  then have "k + i \<le> length s \<and> rx_match r (drop (k + i) s)"
    using i by simp
  then show "\<exists>i\<le>length s. rx_match r (drop i s)" by blast
next
  assume "\<exists>i\<le>length s. rx_match r (drop i s)"
  then show "rx_test (Star a # r) s"
    unfolding rx_test_iff using rx_match_Star_skip by blast
qed

lemma suffix_iff_drop: "suffix xs ys \<longleftrightarrow> (\<exists>i\<le>length ys. drop i ys = xs)"
proof
  assume "suffix xs ys"
  then obtain zs where "ys = zs @ xs" by (auto simp: suffix_def)
  then have "length zs \<le> length ys \<and> drop (length zs) ys = xs" by simp
  then show "\<exists>i\<le>length ys. drop i ys = xs" by blast
next
  assume "\<exists>i\<le>length ys. drop i ys = xs"
  then show "suffix xs ys" using suffix_drop by blast
qed

lemma canonicalize_pattern_chars:
  "canonicalize CHR ''-'' = CHR ''-''" "canonicalize CHR ''_'' = CHR ''_''"
  "canonicalize CHR ''t'' = CHR ''T''" "canonicalize CHR ''o'' = CHR ''O''"
  "canonicalize CHR ''l'' = CHR ''L''" "canonicalize CHR ''.'' = CHR ''.''"
  "canonicalize CHR ''s'' = CHR ''S''" "canonicalize CHR ''x'' = CHR ''X''"
  "canonicalize CHR ''d'' = CHR ''D''"
  by (simp_all add: canonicalize_def)

text \<open>
  The texts a pattern matches in full, by their canonical forms: one step per item of the
  pattern, from its end.
\<close>

lemma rx_match_Opt_End:
  "rx_match [Opt (Lit a), EndOfInput] s \<longleftrightarrow> map canonicalize s \<in> {[], [canonicalize a]}"
  by (cases s) auto

lemma rx_match_Lit:
  assumes "\<And>t. rx_match r t \<longleftrightarrow> map canonicalize t \<in> L"
  shows "rx_match (One (Lit a) # r) s \<longleftrightarrow> map canonicalize s \<in> (#) (canonicalize a) ` L"
  by (cases s) (auto simp: assms)

lemma rx_match_Class:
  assumes "\<And>t. rx_match r t \<longleftrightarrow> map canonicalize t \<in> L"
  shows "rx_match (One (Class cs) # r) s
           \<longleftrightarrow> map canonicalize s \<in> (\<Union>c\<in>set cs. (#) (canonicalize c) ` L)"
  by (cases s) (auto simp: assms)

lemma rx_match_tail:
  "rx_match (tl custom_tool_pattern) s \<longleftrightarrow>
     map canonicalize s = map canonicalize ''-tool.ts'' \<or>
     map canonicalize s = map canonicalize ''_tool.ts'' \<or>
     map canonicalize s = map canonicalize ''-tool.tsx'' \<or>
     map canonicalize s = map canonicalize ''_tool.tsx''"
proof -
  note step =
    rx_match_Class [OF rx_match_Lit [OF rx_match_Lit [OF rx_match_Lit [OF rx_match_Lit
      [OF rx_match_Lit [OF rx_match_Lit [OF rx_match_Lit [OF rx_match_Opt_End]]]]]]],
      of "''-_''" "CHR ''t''" "CHR ''o''" "CHR ''o''" "CHR ''l''" "CHR ''.''" "CHR ''t''"
         "CHR ''s''" "CHR ''x''" s]
  have "rx_match (tl custom_tool_pattern) s \<longleftrightarrow>
          map canonicalize s \<in> {''-TOOL.TS'', ''-TOOL.TSX'', ''_TOOL.TS'', ''_TOOL.TSX''}"
    unfolding custom_tool_pattern_def using step
    by (simp add: canonicalize_pattern_chars del: rx_match.simps) argo
  then show ?thesis
    by (simp add: canonicalize_pattern_chars) argo
qed

lemma ends_with_ci_drop:
  "ends_with_ci suf s \<longleftrightarrow>
     (\<exists>i\<le>length s. map canonicalize (drop i s) = map canonicalize suf)"
  by (simp add: ends_with_ci_def suffix_iff_drop drop_map)

lemma hasCustomToolExtension_iff:
  "hasCustomToolExtension fileName \<longleftrightarrow>
     ends_with_ci ''-tool.ts'' fileName \<or> ends_with_ci ''_tool.ts'' fileName \<or>
     ends_with_ci ''-tool.tsx'' fileName \<or> ends_with_ci ''_tool.tsx'' fileName"
proof -
  have "custom_tool_pattern = Star AnyChar # tl custom_tool_pattern"
    by (simp add: custom_tool_pattern_def)
  then have "hasCustomToolExtension fileName \<longleftrightarrow>
      (\<exists>i\<le>length fileName. rx_match (tl custom_tool_pattern) (drop i fileName))"
    unfolding hasCustomToolExtension_def using rx_test_Star by metis
  then show ?thesis
    unfolding rx_match_tail ends_with_ci_drop by blast
qed

text \<open>A name that ends in \<^verbatim>\<open>.d.ts\<close> has none of the four endings.\<close>

lemma d_ts_has_no_tool_suffix:
  assumes "suffix ''.d.ts'' n"
  shows "\<not> ends_with_ci ''-tool.ts'' n" "\<not> ends_with_ci ''_tool.ts'' n"
    "\<not> ends_with_ci ''-tool.tsx'' n" "\<not> ends_with_ci ''_tool.tsx'' n"
proof -
  from assms obtain p where n: "n = p @ ''.d.ts''" by (auto simp: suffix_def)
  show "\<not> ends_with_ci ''-tool.ts'' n" "\<not> ends_with_ci ''_tool.ts'' n"
    "\<not> ends_with_ci ''-tool.tsx'' n" "\<not> ends_with_ci ''_tool.tsx'' n"
    unfolding ends_with_ci_def n
    by (simp_all add: canonicalize_pattern_chars suffix_to_prefix)
qed

text \<open>
  Claim C6, as amended. A directory entry is kept as a candidate tool file if and only
  if it is a file whose name ends, letters compared without regard to case, with
  \<^verbatim>\<open>-tool\<close> or \<^verbatim>\<open>_tool\<close> immediately before \<^verbatim>\<open>.ts\<close> or \<^verbatim>\<open>.tsx\<close>, and
  whose name does not end in \<^verbatim>\<open>.d.ts\<close>; no entry whose name ends in \<^verbatim>\<open>.d.ts\<close>
  is kept, whatever its stem.
\<close>

theorem is_candidate_iff_tool_suffix:
  "(is_candidate entry \<longleftrightarrow>
      isFile entry \<and>
      (ends_with_ci ''-tool.ts'' (entry_name entry) \<or> ends_with_ci ''_tool.ts'' (entry_name entry) \<or>
       ends_with_ci ''-tool.tsx'' (entry_name entry) \<or> ends_with_ci ''_tool.tsx'' (entry_name entry))
      \<and> \<not> suffix ''.d.ts'' (entry_name entry))
   \<and> (suffix ''.d.ts'' (entry_name entry) \<longrightarrow> \<not> is_candidate entry)"
  unfolding is_candidate_def using hasCustomToolExtension_iff [of "entry_name entry"]
  by auto

text \<open>
  The theorem at a name with a mixed-case suffix, which is kept, and at a declaration
  file, which is not.
\<close>

theorem is_candidate_iff_tool_suffix_witness:
  "is_candidate \<lparr>entry_name = ''Report-TOOL.TsX'', isFile = True, isDirectory = False\<rparr>
   \<and> suffix ''.d.ts'' ''report-tool.d.ts''
   \<and> \<not> is_candidate \<lparr>entry_name = ''report-tool.d.ts'', isFile = True, isDirectory = False\<rparr>"
proof -
  have a: "ends_with_ci ''-tool.tsx'' ''Report-TOOL.TsX''"
    by (simp add: ends_with_ci_def canonicalize_def suffix_to_prefix)
  have b: "suffix ''.d.ts'' ''report-tool.d.ts''"
    by (simp add: suffix_to_prefix)
  have a': "\<not> suffix ''.d.ts'' ''Report-TOOL.TsX''"
    by (simp add: suffix_to_prefix)
  have c: "is_candidate \<lparr>entry_name = ''Report-TOOL.TsX'', isFile = True, isDirectory = False\<rparr>"
    using a a' is_candidate_iff_tool_suffix
        [of "\<lparr>entry_name = ''Report-TOOL.TsX'', isFile = True, isDirectory = False\<rparr>"]
    by simp
  have "suffix ''.d.ts''
          (entry_name \<lparr>entry_name = ''report-tool.d.ts'', isFile = True, isDirectory = False\<rparr>)
        \<longrightarrow> \<not> is_candidate
              \<lparr>entry_name = ''report-tool.d.ts'', isFile = True, isDirectory = False\<rparr>"
    using is_candidate_iff_tool_suffix
        [of "\<lparr>entry_name = ''report-tool.d.ts'', isFile = True, isDirectory = False\<rparr>"]
    by (rule conjunct2)
  then have d: "\<not> is_candidate
              \<lparr>entry_name = ''report-tool.d.ts'', isFile = True, isDirectory = False\<rparr>"
    using b by simp
  show ?thesis using b c d by blast
qed

text \<open>
  Claim C6 as stated fails: the file \<^verbatim>\<open>my_tool.ts\<close> is kept, and its name does not
  end with \<^verbatim>\<open>-tool\<close> before the extension.
\<close>

theorem is_candidate_underscore_counterexample:
  "is_candidate \<lparr>entry_name = ''my_tool.ts'', isFile = True, isDirectory = False\<rparr>
   \<and> \<not> ends_with_ci ''-tool.ts'' ''my_tool.ts''
   \<and> \<not> ends_with_ci ''-tool.tsx'' ''my_tool.ts''"
  by code_simp

section \<open>Properties of the directories to scan\<close>



















section \<open>Properties of the loader\<close>

text \<open>The check of the default export.\<close>

lemma check_definition_invalid:
  "\<not> truthy d \<or> typeof d \<noteq> ''object''
     \<Longrightarrow> check_definition d tn = Inl (Error ''Invalid tool export'')"
  by (auto simp: check_definition_def)

lemma check_definition_named:
  "map_of ps ''name'' = Some (Str n) \<Longrightarrow> n \<noteq> []
     \<Longrightarrow> check_definition (Obj ps) tn = Inr (n, Obj ps)"
  by (simp add: check_definition_def)

lemma check_definition_unnamed:
  "\<not> truthy (get_prop (Obj ps) ''name'') \<or> typeof (get_prop (Obj ps) ''name'') \<noteq> ''string''
     \<Longrightarrow> check_definition (Obj ps) tn = Inr (tn, Obj (AList.update ''name'' (Str tn) ps))"
  by (auto simp: check_definition_def)

lemma check_definition_frozen_unnamed:
  "\<not> truthy (get_prop (Frozen ps) ''name'')
       \<or> typeof (get_prop (Frozen ps) ''name'') \<noteq> ''string''
     \<Longrightarrow> check_definition (Frozen ps) tn = Inl (Error ''Cannot assign to property name'')"
  by (auto simp: check_definition_def)

lemma check_definition_accepts_objects_only:
  "check_definition d tn = Inr (n, named) \<Longrightarrow>
     (\<exists>ps. d = Obj ps \<or> d = Frozen ps) \<and> typeof named = ''object''
     \<and> get_prop named ''name'' = Str n"
  by (cases d)
     (auto simp: check_definition_def update_conv' split: if_splits option.splits jsval.splits)

text \<open>Where the steps of the inner \<^verbatim>\<open>try\<close> fail.\<close>

lemma load_tool_file_failures:
  "fs_readTextFile env p = Inl e \<Longrightarrow> load_tool_file env p n t st = (Inl e, st)"
  "fs_readTextFile env p = Inr sourceCode \<Longrightarrow> compileCustomTool env sourceCode n = Inl e
     \<Longrightarrow> load_tool_file env p n t st = (Inl e, st)"
  "fs_readTextFile env p = Inr sourceCode \<Longrightarrow> compileCustomTool env sourceCode n = Inr compiled
     \<Longrightarrow> path_dirname env p = Inr fileDir
     \<Longrightarrow> resolveCustomToolDefinition env (createCustomToolModuleUrl compiled n (Some fileDir)) st
           = (Inl e, st')
     \<Longrightarrow> load_tool_file env p n t st = (Inl e, st')"
  "fs_readTextFile env p = Inr sourceCode \<Longrightarrow> compileCustomTool env sourceCode n = Inr compiled
     \<Longrightarrow> path_dirname env p = Inr fileDir
     \<Longrightarrow> resolveCustomToolDefinition env (createCustomToolModuleUrl compiled n (Some fileDir)) st
           = (Inr d, st')
     \<Longrightarrow> check_definition d t = Inl e
     \<Longrightarrow> load_tool_file env p n t st = (Inl e, st')"
  by (simp_all add: load_tool_file_def)

text \<open>
  One turn of the loop for a candidate file. A loaded definition and a failure whose
  message can be taken append one result each, and the loop goes on with the remaining
  entries; a failure whose message cannot be taken ends the loop with no result for the
  file.
\<close>

lemma load_entries_step_loaded:
  assumes "is_candidate entry" and "path_join env dirPath (entry_name entry) = Inr p"
    and "load_tool_file env p (entry_name entry) (getToolNameFromFile (entry_name entry)) st
           = (Inr named, st')"
  shows "load_entries env dirPath src (entry # rest) (results, st)
     = load_entries env dirPath src rest (results @ [loaded_result p src named], st')"
  using assms by simp

lemma load_entries_step_error:
  assumes "is_candidate entry" and "path_join env dirPath (entry_name entry) = Inr p"
    and "load_tool_file env p (entry_name entry) (getToolNameFromFile (entry_name entry)) st
           = (Inl e, st')"
    and "error_message e = Inr msg"
  shows "load_entries env dirPath src (entry # rest) (results, st)
     = load_entries env dirPath src rest
         (results @ [\<lparr>result_name = getToolNameFromFile (entry_name entry), filePath = p,
                       status = StatusError, source = src, error = Some msg, tool = None\<rparr>],
          st')"
  using assms by (simp add: error_result_def)

lemma load_entries_step_unprintable:
  assumes "is_candidate entry" and "path_join env dirPath (entry_name entry) = Inr p"
    and "load_tool_file env p (entry_name entry) (getToolNameFromFile (entry_name entry)) st
           = (Inl e, st')"
    and "error_message e = Inl t"
  shows "load_entries env dirPath src (entry # rest) (results, st) = (Some t, results, st')"
  using assms by simp

lemma load_entries_candidate:
  assumes "failures_have_messages env"
    and "is_candidate entry" and "path_join env dirPath (entry_name entry) = Inr p"
  shows "\<exists>r st'. load_entries env dirPath src (entry # rest) (results, st)
                    = load_entries env dirPath src rest (results @ [r], st')
           \<and> filePath r = p \<and> well_formed_result src r
           \<and> (status r = StatusError \<longleftrightarrow>
                isl (fst (load_tool_file env p (entry_name entry)
                            (getToolNameFromFile (entry_name entry)) st)))"
proof -
  obtain outcome st1 where
    run: "load_tool_file env p (entry_name entry) (getToolNameFromFile (entry_name entry)) st
            = (outcome, st1)"
    by (cases "load_tool_file env p (entry_name entry) (getToolNameFromFile (entry_name entry)) st")
  show ?thesis
  proof (cases outcome)
    case (Inr named)
    have "load_entries env dirPath src (entry # rest) (results, st)
            = load_entries env dirPath src rest (results @ [loaded_result p src named], st1)"
      using load_entries_step_loaded [OF assms(2,3)] run Inr by simp
    moreover have "filePath (loaded_result p src named) = p"
        "well_formed_result src (loaded_result p src named)"
        "status (loaded_result p src named) \<noteq> StatusError"
      by (simp_all add: loaded_result_def well_formed_result_def)
    ultimately show ?thesis using run Inr by fastforce
  next
    case (Inl e)
    then obtain msg where msg: "error_message e = Inr msg"
      using assms(1) run unfolding failures_have_messages_def by blast
    let ?r = "\<lparr>result_name = getToolNameFromFile (entry_name entry), filePath = p,
                status = StatusError, source = src, error = Some msg, tool = None\<rparr>"
    have "load_entries env dirPath src (entry # rest) (results, st)
            = load_entries env dirPath src rest (results @ [?r], st1)"
      using load_entries_step_error [OF assms(2,3) _ msg] run Inl by simp
    moreover have "filePath ?r = p" "well_formed_result src ?r" "status ?r = StatusError"
      by (simp_all add: well_formed_result_def)
    ultimately show ?thesis using run Inl by fastforce
  qed
qed

text \<open>
  So, when the message of every failure can be taken and the path of every candidate
  file can be built, a directory's entries give one result per candidate file, in the
  order of the entries.
\<close>

lemma load_entries_results:
  assumes "failures_have_messages env"
    and "\<forall>entry\<in>set entries. is_candidate entry \<longrightarrow>
             \<not> isl (path_join env dirPath (entry_name entry))"
  shows "\<exists>new st'. load_entries env dirPath src entries (results, st) = (None, results @ new, st')
           \<and> map filePath new = candidate_paths env dirPath entries
           \<and> list_all (well_formed_result src) new"
  using assms(2)
proof (induction entries arbitrary: results st)
  case Nil
  then show ?case by (simp add: candidate_paths_def)
next
  case (Cons entry rest)
  show ?case
  proof (cases "is_candidate entry")
    case False
    then show ?thesis using Cons.IH [of results st] Cons.prems
      by (simp add: candidate_paths_def)
  next
    case True
    then have "\<not> isl (path_join env dirPath (entry_name entry))"
      using Cons.prems by simp
    then obtain p where p: "path_join env dirPath (entry_name entry) = Inr p"
      by (cases "path_join env dirPath (entry_name entry)") auto
    from load_entries_candidate [OF assms(1) True p, of src rest results st]
    obtain r st1 where
      step: "load_entries env dirPath src (entry # rest) (results, st)
               = load_entries env dirPath src rest (results @ [r], st1)"
      and fp: "filePath r = p" and wf: "well_formed_result src r"
      by blast
    from Cons.IH [of "results @ [r]" st1] Cons.prems
    obtain new st' where
      rest: "load_entries env dirPath src rest (results @ [r], st1)
               = (None, (results @ [r]) @ new, st')"
        "map filePath new = candidate_paths env dirPath rest"
        "list_all (well_formed_result src) new"
      by auto
    have "load_entries env dirPath src (entry # rest) (results, st)
            = (None, results @ (r # new), st')"
      using step rest(1) by simp
    moreover have "map filePath (r # new) = candidate_paths env dirPath (entry # rest)"
      using rest(2) True p fp by (simp add: candidate_paths_def)
    moreover have "list_all (well_formed_result src) (r # new)"
      using rest(3) wf by simp
    ultimately show ?thesis by blast
  qed
qed

lemma load_directory_results:
  assumes "failures_have_messages env" and "scannable env dirPath"
  shows "\<exists>new st'. load_directory env (dirPath, src) (results, st) = (None, results @ new, st')
           \<and> map filePath new = candidate_paths env dirPath (projr (fs_readDir env dirPath))
           \<and> list_all (well_formed_result src) new"
proof -
  from assms(2) obtain entries where
    ex: "fs_exists env dirPath = Inr True" and rd: "fs_readDir env dirPath = Inr entries"
    and joins: "\<forall>entry\<in>set entries. is_candidate entry \<longrightarrow>
                  \<not> isl (path_join env dirPath (entry_name entry))"
    by (auto simp: scannable_def list_all_iff split: sum.splits)
  from load_entries_results [OF assms(1) joins, of src results st]
  obtain new st' where
    "load_entries env dirPath src entries (results, st) = (None, results @ new, st')"
    "map filePath new = candidate_paths env dirPath entries"
    "list_all (well_formed_result src) new"
    by blast
  then show ?thesis using ex rd by (simp add: load_directory_def)
qed

text \<open>A directory that does not exist gives one error result, for the directory.\<close>

lemma load_directory_missing:
  assumes "fs_exists env dirPath = Inr False"
  shows "load_directory env (dirPath, src) (results, st)
           = (None, results @ [\<lparr>result_name = dirPath, filePath = dirPath,
                                  status = StatusError, source = src,
                                  error = Some ''Directory not found'', tool = None\<rparr>], st)"
  using assms by (simp add: load_directory_def error_result_def)

lemma load_directories_results:
  assumes "failures_have_messages env"
    and "list_all (\<lambda>d. scannable env (fst d) \<or> fs_exists env (fst d) = Inr False) dirs"
  shows "\<exists>new st'. load_directories env dirs (results, st) = (None, results @ new, st')
           \<and> map filePath new
               = concat (map (\<lambda>d. if fs_exists env (fst d) = Inr False then [fst d]
                                   else candidate_paths env (fst d)
                                          (projr (fs_readDir env (fst d)))) dirs)
           \<and> list_all (\<lambda>r. well_formed_result (source r) r) new"
  using assms(2)
proof (induction dirs arbitrary: results st)
  case Nil
  then show ?case by simp
next
  case (Cons d dirs)
  obtain dirPath src where d: "d = (dirPath, src)" by (cases d)
  let ?paths = "if fs_exists env dirPath = Inr False then [dirPath]
                else candidate_paths env dirPath (projr (fs_readDir env dirPath))"
  have "\<exists>new1 st1. load_directory env (dirPath, src) (results, st) = (None, results @ new1, st1)
          \<and> map filePath new1 = ?paths \<and> list_all (well_formed_result src) new1"
  proof (cases "fs_exists env dirPath = Inr False")
    case True
    then show ?thesis
      using load_directory_missing [OF True, of src results st]
      by (simp add: well_formed_result_def)
  next
    case False
    then have "scannable env dirPath" using Cons.prems d by simp
    then show ?thesis
      using load_directory_results [OF assms(1), of dirPath src results st] False by simp
  qed
  then obtain new1 st1 where
    one: "load_directory env (dirPath, src) (results, st) = (None, results @ new1, st1)"
      "map filePath new1 = ?paths"
      "list_all (well_formed_result src) new1"
    by blast
  from Cons.IH [of "results @ new1" st1] Cons.prems
  obtain new2 st2 where
    more: "load_directories env dirs (results @ new1, st1) = (None, (results @ new1) @ new2, st2)"
      "map filePath new2
         = concat (map (\<lambda>d. if fs_exists env (fst d) = Inr False then [fst d]
                             else candidate_paths env (fst d)
                                    (projr (fs_readDir env (fst d)))) dirs)"
      "list_all (\<lambda>r. well_formed_result (source r) r) new2"
    by auto
  have wf1: "list_all (\<lambda>r. well_formed_result (source r) r) new1"
    using one(3) by (auto simp: list_all_iff well_formed_result_def)
  have "load_directories env (d # dirs) (results, st) = (None, results @ (new1 @ new2), st2)"
    using one(1) more(1) d by simp
  moreover have "map filePath (new1 @ new2)
      = concat (map (\<lambda>d. if fs_exists env (fst d) = Inr False then [fst d]
                          else candidate_paths env (fst d)
                                 (projr (fs_readDir env (fst d)))) (d # dirs))"
    using one(2) more(2) d by simp
  moreover have "list_all (\<lambda>r. well_formed_result (source r) r) (new1 @ new2)"
    using wf1 more(3) by simp
  ultimately show ?case by blast
qed

text \<open>
  File-level isolation, where it holds: when the message of every failure can be taken,
  and every directory either does not exist or can be scanned, the load returns, directory
  by directory and in the order of the entries, one result per candidate file (and one per
  missing directory), each an error with a message or a loaded definition, whichever files
  fail.
\<close>

lemma loadCustomTools_isolation_when_messages:
  assumes "failures_have_messages env"
    and "buildDirectories env options = Inr dirs"
    and "list_all (\<lambda>d. scannable env (fst d) \<or> fs_exists env (fst d) = Inr False) dirs"
  shows "\<exists>loaded st'. loadCustomTools env options st = (Inr loaded, st')
           \<and> map filePath loaded
               = concat (map (\<lambda>d. if fs_exists env (fst d) = Inr False then [fst d]
                                   else candidate_paths env (fst d)
                                          (projr (fs_readDir env (fst d)))) dirs)
           \<and> list_all (\<lambda>r. well_formed_result (source r) r) loaded"
proof (cases "dirs = []")
  case True
  then show ?thesis using assms(2) by (simp add: loadCustomTools_def)
next
  case False
  from load_directories_results [OF assms(1,3), of "[]" st]
  obtain new st' where
    "load_directories env dirs ([], st) = (None, new, st')"
    "map filePath new
       = concat (map (\<lambda>d. if fs_exists env (fst d) = Inr False then [fst d]
                           else candidate_paths env (fst d)
                                  (projr (fs_readDir env (fst d)))) dirs)"
    "list_all (\<lambda>r. well_formed_result (source r) r) new"
    by auto
  then show ?thesis using assms(2) False by (simp add: loadCustomTools_def)
qed

text \<open>The results never shrink: what a file or a directory has produced stays.\<close>

lemma load_entries_grows:
  "load_entries env dirPath src entries acc = (t, results, st') \<Longrightarrow> prefix (fst acc) results"
proof (induction entries arbitrary: acc)
  case Nil
  then show ?case by (cases acc) auto
next
  case (Cons entry rest)
  show ?case
  proof (cases "is_candidate entry")
    case False
    then show ?thesis using Cons by simp
  next
    case True
    show ?thesis
    proof (cases "path_join env dirPath (entry_name entry)")
      case (Inl e)
      then show ?thesis using Cons.prems True by (cases acc) auto
    next
      case (Inr p)
      obtain outcome st1 where
        run: "load_tool_file env p (entry_name entry) (getToolNameFromFile (entry_name entry))
                (snd acc) = (outcome, st1)"
        by (cases "load_tool_file env p (entry_name entry)
                     (getToolNameFromFile (entry_name entry)) (snd acc)")
      show ?thesis
      proof (cases outcome)
        case named: (Inr named)
        then have "load_entries env dirPath src rest
                     (fst acc @ [loaded_result p src named], st1) = (t, results, st')"
          using Cons.prems True Inr run by simp
        from Cons.IH [OF this] show ?thesis by (auto dest: append_prefixD)
      next
        case err: (Inl e)
        show ?thesis
        proof (cases "error_message e")
          case (Inl u)
          then show ?thesis using Cons.prems True Inr run err by auto
        next
          case msg: (Inr msg)
          then have "load_entries env dirPath src rest
                       (fst acc @ [error_result (getToolNameFromFile (entry_name entry))
                                     p src msg], st1) = (t, results, st')"
            using Cons.prems True Inr run err by simp
          from Cons.IH [OF this] show ?thesis by (auto dest: append_prefixD)
        qed
      qed
    qed
  qed
qed

lemma catch_directory_grows:
  "catch_directory dirPath src e acc = (t, results, st') \<Longrightarrow> prefix (fst acc) results"
  by (cases acc) (auto simp: catch_directory_def split: sum.splits)

lemma load_directory_grows:
  assumes "load_directory env dir acc = (t, results, st')"
  shows "prefix (fst acc) results"
proof -
  obtain dirPath src where dir: "dir = (dirPath, src)" by (cases dir)
  show ?thesis
  proof (cases "fs_exists env dirPath")
    case (Inl e)
    then show ?thesis using assms dir catch_directory_grows
      by (simp add: load_directory_def)
  next
    case (Inr found)
    show ?thesis
    proof (cases found)
      case False
      then show ?thesis using assms dir Inr by (cases acc) (auto simp: load_directory_def)
    next
      case True
      show ?thesis
      proof (cases "fs_readDir env dirPath")
        case (Inl e)
        then show ?thesis using assms dir Inr True catch_directory_grows
          by (simp add: load_directory_def)
      next
        case entries: (Inr entries)
        obtain u rs st1 where
          run: "load_entries env dirPath src entries acc = (u, rs, st1)"
          by (cases "load_entries env dirPath src entries acc") auto
        from load_entries_grows [OF run] have p1: "prefix (fst acc) rs" .
        show ?thesis
        proof (cases u)
          case None
          then show ?thesis using assms dir Inr True entries run p1
            by (simp add: load_directory_def)
        next
          case (Some e)
          then have "catch_directory dirPath src e (rs, st1) = (t, results, st')"
            using assms dir Inr True entries run by (simp add: load_directory_def)
          from catch_directory_grows [OF this] p1 show ?thesis by auto
        qed
      qed
    qed
  qed
qed

lemma load_directories_grows:
  "load_directories env dirs acc = (t, results, st') \<Longrightarrow> prefix (fst acc) results"
proof (induction dirs arbitrary: acc)
  case Nil
  then show ?case by (cases acc) auto
next
  case (Cons d dirs)
  obtain u rs st1 where run: "load_directory env d acc = (u, rs, st1)"
    by (cases "load_directory env d acc") auto
  from load_directory_grows [OF run] have p1: "prefix (fst acc) rs" .
  show ?case
  proof (cases u)
    case None
    then have "load_directories env dirs (rs, st1) = (t, results, st')"
      using Cons.prems run by simp
    from Cons.IH [OF this] p1 show ?thesis by auto
  next
    case (Some e)
    then show ?thesis using Cons.prems run p1 by simp
  qed
qed

text \<open>
  The example environment: the message of every failure in the tools directory under
  \<^verbatim>\<open>/w\<close> can be taken, and the message of the failure of \<^verbatim>\<open>odd-tool.ts\<close> under
  \<^verbatim>\<open>/v\<close> cannot.
\<close>

lemma example_env_not_failures_have_messages: "\<not> failures_have_messages example_env"
proof -
  have "load_tool_file example_env ''/v/.talkcody/tools/odd-tool.ts'' ''odd-tool.ts''
          ''odd-tool'' empty_resolver_state
        = (Inl (Unprintable (Error ''Cannot convert object to primitive value'')),
           empty_resolver_state)"
    by (simp add: load_tool_file_def example_env_def example_files_def example_modules_def
          compileCustomTool_def resolveCustomToolDefinition_def createCustomToolModuleUrl_def
          convertCommonJsToAsyncRequire_def)
  then show ?thesis
    unfolding failures_have_messages_def by (metis error_message.simps(3) sum.distinct(1))
qed

text \<open>
  Claim C4 fails at a tool file whose module throws a value of which no string can be
  made, as an object without a prototype is. The inner \<^verbatim>\<open>catch\<close> takes the message
  of what it caught with \<^verbatim>\<open>String(error)\<close>, which throws a \<^verbatim>\<open>TypeError\<close> for such a
  value; this leaves the loop over the entries for the \<^verbatim>\<open>catch\<close> of the directory.
  In the directory under \<^verbatim>\<open>/v\<close>, which lists \<^verbatim>\<open>odd-tool.ts\<close> and then the valid
  \<^verbatim>\<open>good-tool.ts\<close>, the load gives one result, for the directory: none for
  \<^verbatim>\<open>odd-tool.ts\<close>, and none for \<^verbatim>\<open>good-tool.ts\<close>, which is never read and which loads
  when it is read. In the directory under \<^verbatim>\<open>/w\<close>, where the message of every failure
  can be taken, every candidate file has its result: the valid tool is loaded, and the
  file that does not compile, the one that exports a number, the one that exports a frozen
  object without a name, the one that throws a string and the one that cannot be read
  have one error result each, with the message of the failure. The same holds when the
  directory is the workspace's; the home directory, which does not exist, adds one error
  result for the directory and takes none away.
\<close>

theorem loadCustomTools_unprintable_failure_skips_files:
  "fst (load_tool_file example_env ''/v/.talkcody/tools/odd-tool.ts'' ''odd-tool.ts''
          ''odd-tool'' empty_resolver_state)
     = Inl (Unprintable (Error ''Cannot convert object to primitive value''))
   \<and> fst (load_tool_file example_env ''/v/.talkcody/tools/good-tool.ts'' ''good-tool.ts''
          ''good-tool'' empty_resolver_state)
     = Inr (''good'', Obj [(''name'', Str ''good''), (''execute'', Fn ''execute'')])
   \<and> candidate_paths example_env ''/v/.talkcody/tools''
        (projr (fs_readDir example_env ''/v/.talkcody/tools''))
     = [''/v/.talkcody/tools/odd-tool.ts'', ''/v/.talkcody/tools/good-tool.ts'']
   \<and> fst (loadCustomTools example_env
        \<lparr>workspaceRoot = None, customDirectory = Some ''/v''\<rparr> empty_resolver_state)
     = Inr [\<lparr>result_name = ''/v/.talkcody/tools'', filePath = ''/v/.talkcody/tools'',
              status = StatusError, source = Custom,
              error = Some ''Cannot convert object to primitive value'', tool = None\<rparr>]
   \<and> fst (loadCustomTools example_env
        \<lparr>workspaceRoot = None, customDirectory = Some ''/w''\<rparr> empty_resolver_state)
     = Inr [\<lparr>result_name = ''good'', filePath = ''/w/.talkcody/tools/good-tool.ts'',
              status = StatusLoaded, source = Custom, error = None,
              tool = Some (Obj [(''name'', Str ''good''), (''execute'', Fn ''execute'')])\<rparr>,
            \<lparr>result_name = ''bad-tool'', filePath = ''/w/.talkcody/tools/bad-tool.ts'',
              status = StatusError, source = Custom, error = Some ''Syntax Error'',
              tool = None\<rparr>,
            \<lparr>result_name = ''five-tool'', filePath = ''/w/.talkcody/tools/five-tool.ts'',
              status = StatusError, source = Custom, error = Some ''Invalid tool export'',
              tool = None\<rparr>,
            \<lparr>result_name = ''sealed-tool'', filePath = ''/w/.talkcody/tools/sealed-tool.ts'',
              status = StatusError, source = Custom,
              error = Some ''Cannot assign to property name'', tool = None\<rparr>,
            \<lparr>result_name = ''loud-tool'', filePath = ''/w/.talkcody/tools/loud-tool.ts'',
              status = StatusError, source = Custom, error = Some ''boom'', tool = None\<rparr>,
            \<lparr>result_name = ''gone-tool'', filePath = ''/w/.talkcody/tools/gone-tool.ts'',
              status = StatusError, source = Custom, error = Some ''No such file'',
              tool = None\<rparr>]
   \<and> map_sum id (map (\<lambda>r. (filePath r, source r, status r, error r)))
        (fst (loadCustomTools example_env
                \<lparr>workspaceRoot = Some ''/w'', customDirectory = None\<rparr> empty_resolver_state))
     = Inr [(''/w/.talkcody/tools/good-tool.ts'', Workspace, StatusLoaded, None),
            (''/w/.talkcody/tools/bad-tool.ts'', Workspace, StatusError, Some ''Syntax Error''),
            (''/w/.talkcody/tools/five-tool.ts'', Workspace, StatusError,
             Some ''Invalid tool export''),
            (''/w/.talkcody/tools/sealed-tool.ts'', Workspace, StatusError,
             Some ''Cannot assign to property name''),
            (''/w/.talkcody/tools/loud-tool.ts'', Workspace, StatusError, Some ''boom''),
            (''/w/.talkcody/tools/gone-tool.ts'', Workspace, StatusError, Some ''No such file''),
            (''/home/u/.talkcody/tools'', User, StatusError, Some ''Directory not found'')]"
proof (intro conjI)
  show "fst (load_tool_file example_env ''/v/.talkcody/tools/odd-tool.ts'' ''odd-tool.ts''
          ''odd-tool'' empty_resolver_state)
     = Inl (Unprintable (Error ''Cannot convert object to primitive value''))"
    by code_simp
  show "fst (load_tool_file example_env ''/v/.talkcody/tools/good-tool.ts'' ''good-tool.ts''
          ''good-tool'' empty_resolver_state)
     = Inr (''good'', Obj [(''name'', Str ''good''), (''execute'', Fn ''execute'')])"
    by code_simp
  show "candidate_paths example_env ''/v/.talkcody/tools''
        (projr (fs_readDir example_env ''/v/.talkcody/tools''))
     = [''/v/.talkcody/tools/odd-tool.ts'', ''/v/.talkcody/tools/good-tool.ts'']"
    by code_simp
  show "fst (loadCustomTools example_env
        \<lparr>workspaceRoot = None, customDirectory = Some ''/v''\<rparr> empty_resolver_state)
     = Inr [\<lparr>result_name = ''/v/.talkcody/tools'', filePath = ''/v/.talkcody/tools'',
              status = StatusError, source = Custom,
              error = Some ''Cannot convert object to primitive value'', tool = None\<rparr>]"
    by code_simp
  show "fst (loadCustomTools example_env
        \<lparr>workspaceRoot = None, customDirectory = Some ''/w''\<rparr> empty_resolver_state)
     = Inr [\<lparr>result_name = ''good'', filePath = ''/w/.talkcody/tools/good-tool.ts'',
              status = StatusLoaded, source = Custom, error = None,
              tool = Some (Obj [(''name'', Str ''good''), (''execute'', Fn ''execute'')])\<rparr>,
            \<lparr>result_name = ''bad-tool'', filePath = ''/w/.talkcody/tools/bad-tool.ts'',
              status = StatusError, source = Custom, error = Some ''Syntax Error'',
              tool = None\<rparr>,
            \<lparr>result_name = ''five-tool'', filePath = ''/w/.talkcody/tools/five-tool.ts'',
              status = StatusError, source = Custom, error = Some ''Invalid tool export'',
              tool = None\<rparr>,
            \<lparr>result_name = ''sealed-tool'', filePath = ''/w/.talkcody/tools/sealed-tool.ts'',
              status = StatusError, source = Custom,
              error = Some ''Cannot assign to property name'', tool = None\<rparr>,
            \<lparr>result_name = ''loud-tool'', filePath = ''/w/.talkcody/tools/loud-tool.ts'',
              status = StatusError, source = Custom, error = Some ''boom'', tool = None\<rparr>,
            \<lparr>result_name = ''gone-tool'', filePath = ''/w/.talkcody/tools/gone-tool.ts'',
              status = StatusError, source = Custom, error = Some ''No such file'',
              tool = None\<rparr>]"
    by code_simp
  show "map_sum id (map (\<lambda>r. (filePath r, source r, status r, error r)))
        (fst (loadCustomTools example_env
                \<lparr>workspaceRoot = Some ''/w'', customDirectory = None\<rparr> empty_resolver_state))
     = Inr [(''/w/.talkcody/tools/good-tool.ts'', Workspace, StatusLoaded, None),
            (''/w/.talkcody/tools/bad-tool.ts'', Workspace, StatusError, Some ''Syntax Error''),
            (''/w/.talkcody/tools/five-tool.ts'', Workspace, StatusError,
             Some ''Invalid tool export''),
            (''/w/.talkcody/tools/sealed-tool.ts'', Workspace, StatusError,
             Some ''Cannot assign to property name''),
            (''/w/.talkcody/tools/loud-tool.ts'', Workspace, StatusError, Some ''boom''),
            (''/w/.talkcody/tools/gone-tool.ts'', Workspace, StatusError, Some ''No such file''),
            (''/home/u/.talkcody/tools'', User, StatusError, Some ''Directory not found'')]"
    by code_simp
qed

end
